theory Spec2Isabelle
  imports
    Complex_Main
    "HOL-Library.Word"
    "HOL-Library.List_Lexorder"
    "HOL-Library.Sublist"
    "HOL-Library.AList"
    "HOL-Library.Multiset"
begin

section \<open>JavaScript values used by the knowledge-management server\<close>

text \<open>
  A JavaScript string is a sequence of UTF-16 code units; \<open>length\<close>, \<open>slice\<close>,
  \<open>trim\<close> and the relational operators all work on code units. Numbers that the code
  uses as character positions, sizes and counts are modelled as \<open>int\<close> or \<open>nat\<close>
  (the value \<open>NaN\<close> is outside the model for these). The numbers of embeddings and
  similarity scores are doubles; they are the type \<open>jsnumber\<close> below.
\<close>

type_synonym jschar = "16 word"
type_synonym jsstring = "jschar list"

definition js :: "string \<Rightarrow> jsstring" where
  "js s = map (\<lambda>c. of_nat (of_char c)) s"

text \<open>A thrown \<open>new Error(message)\<close>.\<close>

datatype error = Error jsstring

fun error_message :: "error \<Rightarrow> jsstring" where
  "error_message (Error m) = m"

text \<open>
  \<open>String.prototype.trim\<close> removes the ECMAScript WhiteSpace and LineTerminator code
  units from both ends.
\<close>

definition js_whitespace :: "jschar \<Rightarrow> bool" where
  "js_whitespace c =
     (c = 0x09 \<or> c = 0x0A \<or> c = 0x0B \<or> c = 0x0C \<or> c = 0x0D \<or> c = 0x20 \<or> c = 0xA0
      \<or> c = 0x1680 \<or> (0x2000 \<le> c \<and> c \<le> 0x200A) \<or> c = 0x2028 \<or> c = 0x2029
      \<or> c = 0x202F \<or> c = 0x205F \<or> c = 0x3000 \<or> c = 0xFEFF)"

definition trim :: "jsstring \<Rightarrow> jsstring" where
  "trim s = rev (dropWhile js_whitespace (rev (dropWhile js_whitespace s)))"

text \<open>
  \<open>slice(start, end)\<close> of strings and arrays: a negative argument counts from the end,
  both are clamped to the length, and an empty range gives the empty sequence.
\<close>

definition js_slice :: "'a list \<Rightarrow> int \<Rightarrow> int \<Rightarrow> 'a list" where
  "js_slice xs start end =
     (let n = int (length xs);
          from = (if start < 0 then max (n + start) 0 else min start n);
          to = (if end < 0 then max (n + end) 0 else min end n)
      in take (nat (to - from)) (drop (nat from) xs))"

section \<open>JavaScript numbers\<close>

text \<open>
  A JavaScript number is an IEEE 754 double: \<open>NaN\<close>, one of the two infinities, or a
  finite value. The two zeros are one value here: \<open>===\<close> and \<open><\<close> do not tell them
  apart, and the code modelled never divides by a zero. \<open>js_less\<close> is the operator
  \<open><\<close>: it is false whenever an operand is \<open>NaN\<close>.
\<close>

datatype jsnumber = NaN | PosInfinity | NegInfinity | Finite real

fun js_less :: "jsnumber \<Rightarrow> jsnumber \<Rightarrow> bool" where
  "js_less (Finite x) (Finite y) = (x < y)"
| "js_less (Finite x) PosInfinity = True"
| "js_less NegInfinity (Finite y) = True"
| "js_less NegInfinity PosInfinity = True"
| "js_less _ _ = False"

text \<open>Truthiness of a number: \<open>NaN\<close> and zero are falsy.\<close>

definition number_truthy :: "jsnumber \<Rightarrow> bool" where
  "number_truthy n = (n \<noteq> NaN \<and> n \<noteq> Finite 0)"

text \<open>The sign of a number, which \<open>NaN\<close> has not.\<close>

fun sign :: "jsnumber \<Rightarrow> int option" where
  "sign NaN = None"
| "sign PosInfinity = Some 1"
| "sign NegInfinity = Some (- 1)"
| "sign (Finite x) = Some (if x < 0 then - 1 else if x = 0 then 0 else 1)"

text \<open>
  The rounded arithmetic of doubles is not fixed by the model. The operations that the code
  uses are the fields of a record, and a property proved below holds for whatever
  operations the record holds, unless it states what it needs of them.
\<close>

record Arith =
  fadd :: "jsnumber \<Rightarrow> jsnumber \<Rightarrow> jsnumber"
  fsub :: "jsnumber \<Rightarrow> jsnumber \<Rightarrow> jsnumber"
  fmul :: "jsnumber \<Rightarrow> jsnumber \<Rightarrow> jsnumber"
  fdiv :: "jsnumber \<Rightarrow> jsnumber \<Rightarrow> jsnumber"
  fsqrt :: "jsnumber \<Rightarrow> jsnumber"

text \<open>
  What the ranking needs of the subtraction of doubles, and what IEEE 754 subtraction
  gives: the difference has the sign of the exact difference. It is \<open>NaN\<close> when an
  operand is \<open>NaN\<close> and for equal infinities; it is never zero for different finite
  operands, because of gradual underflow, and an overflow keeps the sign.
\<close>

fun sub_sign :: "jsnumber \<Rightarrow> jsnumber \<Rightarrow> int option" where
  "sub_sign (Finite x) (Finite y) = Some (if x < y then - 1 else if x = y then 0 else 1)"
| "sub_sign NaN _ = None"
| "sub_sign _ NaN = None"
| "sub_sign PosInfinity PosInfinity = None"
| "sub_sign NegInfinity NegInfinity = None"
| "sub_sign PosInfinity _ = Some 1"
| "sub_sign _ NegInfinity = Some 1"
| "sub_sign NegInfinity _ = Some (- 1)"
| "sub_sign _ PosInfinity = Some (- 1)"

definition ieee_sub :: "Arith \<Rightarrow> bool" where
  "ieee_sub ar = (\<forall>x y. sign (fsub ar x y) = sub_sign x y)"

text \<open>
  \<open>Array.prototype.sort(comparefn)\<close>. For a consistent comparator ECMAScript fixes the
  result: the elements in an order that the comparator accepts, those that compare equal
  in their original order; insertion from the right, before the first element that the
  new one does not follow, computes it. A comparator is consistent on the elements when
  it never yields \<open>NaN\<close> and orders them as a total preorder. For any other comparator
  the order is implementation-defined and the model gives no result (\<open>None\<close>), except
  that an array of at most one element is returned as it is.
\<close>

fun insert_sorted :: "('a \<Rightarrow> 'a \<Rightarrow> jsnumber) \<Rightarrow> 'a \<Rightarrow> 'a list \<Rightarrow> 'a list" where
  "insert_sorted cmp x [] = [x]"
| "insert_sorted cmp x (y # ys) =
     (if js_less (Finite 0) (cmp x y) then y # insert_sorted cmp x ys else x # y # ys)"

definition stable_sort :: "('a \<Rightarrow> 'a \<Rightarrow> jsnumber) \<Rightarrow> 'a list \<Rightarrow> 'a list" where
  "stable_sort cmp xs = foldr (insert_sorted cmp) xs []"

definition consistent_at :: "('a \<Rightarrow> 'a \<Rightarrow> jsnumber) \<Rightarrow> 'a \<Rightarrow> 'a \<Rightarrow> 'a \<Rightarrow> bool" where
  "consistent_at cmp a b c =
     (sign (cmp a a) = Some 0
      \<and> sign (cmp a b) \<noteq> None
      \<and> sign (cmp b a) = map_option uminus (sign (cmp a b))
      \<and> (if js_less (Finite 0) (cmp a b) \<or> js_less (Finite 0) (cmp b c) then True
          else \<not> js_less (Finite 0) (cmp a c)))"

definition consistent_comparator :: "('a \<Rightarrow> 'a \<Rightarrow> jsnumber) \<Rightarrow> 'a list \<Rightarrow> bool" where
  "consistent_comparator cmp xs =
     list_all (\<lambda>a. list_all (\<lambda>b. list_all (\<lambda>c. consistent_at cmp a b c) xs) xs) xs"

definition array_sort :: "('a \<Rightarrow> 'a \<Rightarrow> jsnumber) \<Rightarrow> 'a list \<Rightarrow> 'a list option" where
  "array_sort cmp xs =
     (if length xs \<le> 1 then Some xs
      else if consistent_comparator cmp xs then Some (stable_sort cmp xs)
      else None)"

section \<open>Core types (types/index.ts)\<close>

record ChunkMetadata =
  startChar :: int
  endChar :: int

record DocumentChunk =
  chunk_id :: jsstring
  documentId :: jsstring
  chunk_content :: jsstring
  index :: nat
  embedding :: "jsnumber list option"
  chunk_metadata :: ChunkMetadata

record ChunkingOptions =
  chunkSize :: int
  chunkOverlap :: int
  strategy :: jsstring

record EmbeddingConfig =
  provider :: jsstring
  model :: jsstring
  apiKey :: "jsstring option"

record ServerConfig =
  storageDir :: jsstring
  chromaDbDir :: jsstring
  embeddingConfig :: EmbeddingConfig
  chunkingOptions :: ChunkingOptions
  maxFileSize :: int
  allowedFileTypes :: "jsstring list"

text \<open>
  Metadata values are arbitrary JSON values (\<open>Record<string, any>\<close>). An object is used
  here only through its keys and their values, so it is a finite map; the order of its keys
  is not modelled.
\<close>

datatype json =
    JNull
  | JBool bool
  | JNum real
  | JStr jsstring
  | JArr "json list"
  | JObj "(jsstring \<times> json) list"

type_synonym jsobject = "jsstring \<rightharpoonup> json"

record DocumentMetadata =
  filename :: "jsstring option"
  filePath :: "jsstring option"
  fileType :: jsstring
  tags :: "jsstring list"
  customMetadata :: jsobject
  doc_size :: "nat option"
  pageCount :: "nat option"

text \<open>Dates are millisecond timestamps.\<close>

record Document =
  doc_id :: jsstring
  content :: jsstring
  metadata :: DocumentMetadata
  chunks :: "DocumentChunk list"
  createdAt :: nat
  updatedAt :: nat

record SearchResult =
  chunk :: DocumentChunk
  document :: Document
  score :: jsnumber
  distance :: jsnumber

record IngestResult =
  ingest_documentId :: jsstring
  chunksCreated :: nat
  status :: jsstring
  ingest_message :: jsstring

record BatchIngestResult =
  totalFiles :: nat
  successCount :: nat
  failedCount :: nat
  documents :: "IngestResult list"
  errors :: "(jsstring \<times> jsstring) list"

record SearchOptions =
  query :: jsstring
  maxResults :: "int option"
  similarityThreshold :: "jsnumber option"
  filterMetadata :: "jsobject option"
  filterTags :: "jsstring list option"

text \<open>\<open>Partial<DocumentMetadata>\<close>: every field may be absent.\<close>

record PartialMetadata =
  p_filename :: "jsstring option"
  p_filePath :: "jsstring option"
  p_fileType :: "jsstring option"
  p_tags :: "jsstring list option"
  p_customMetadata :: "jsobject option"
  p_size :: "nat option"
  p_pageCount :: "nat option"

text \<open>
  Template literals print a number in decimal (\<open>Number.prototype.toString\<close> on the
  non-negative integers below \<open>10\<^sup>2\<^sup>1\<close> that occur as timestamps, indices and counts).
\<close>

fun number_toString :: "nat \<Rightarrow> jsstring" where
  "number_toString n =
     (if n < 10 then [of_nat (48 + n)]
      else number_toString (n div 10) @ [of_nat (48 + n mod 10)])"

declare number_toString.simps [simp del]

section \<open>Fixed-size chunking (chunking/fixed.ts)\<close>

text \<open>
  The chunk that \<open>FixedChunking.chunk\<close> pushes for the window from \<open>position\<close> to
  \<open>endPosition\<close>: empty ids, the trimmed window as content, no embedding yet.
\<close>

definition fixed_chunk :: "jsstring \<Rightarrow> nat \<Rightarrow> int \<Rightarrow> int \<Rightarrow> DocumentChunk" where
  "fixed_chunk text chunkIndex position endPosition =
     \<lparr>chunk_id = [], documentId = [],
      chunk_content = trim (js_slice text position endPosition),
      index = chunkIndex, embedding = None,
      chunk_metadata = \<lparr>startChar = position, endChar = endPosition\<rparr>\<rparr>"

text \<open>
  The \<open>while (position < textLength)\<close> loop. Nothing in it bounds the number of
  iterations, so the result is optional: \<open>None\<close> stands for a loop that never exits.
  The array \<open>chunks\<close> of the source is the accumulator \<open>acc\<close>.
\<close>

partial_function (option) FixedChunking_loop ::
  "jsstring \<Rightarrow> ChunkingOptions \<Rightarrow> int \<Rightarrow> nat \<Rightarrow> DocumentChunk list \<Rightarrow> DocumentChunk list option"
where
  "FixedChunking_loop text opts position chunkIndex acc =
     (if position < int (length text) then
        (let endPosition = min (position + chunkSize opts) (int (length text));
             keep = (trim (js_slice text position endPosition) \<noteq> []);
             acc' = (if keep then acc @ [fixed_chunk text chunkIndex position endPosition]
                     else acc);
             chunkIndex' = (if keep then chunkIndex + 1 else chunkIndex);
             moved = position + (chunkSize opts - chunkOverlap opts);
             position' = (if moved \<le> 0 then chunkSize opts else moved)
         in FixedChunking_loop text opts position' chunkIndex' acc')
      else Some acc)"

definition FixedChunking_chunk :: "jsstring \<Rightarrow> ChunkingOptions \<Rightarrow> DocumentChunk list option" where
  "FixedChunking_chunk text opts = FixedChunking_loop text opts 0 0 []"

section \<open>Configuration validation (utils/config.ts)\<close>

text \<open>
  \<open>validateConfig\<close> throws on the first check that fails; \<open>!s\<close> holds of the empty
  string and of an absent key.
\<close>

definition validateConfig :: "ServerConfig \<Rightarrow> error + unit" where
  "validateConfig config =
     (if storageDir config = [] then Inl (Error (js ''STORAGE_DIR is required''))
      else if chromaDbDir config = [] then Inl (Error (js ''CHROMA_DB_DIR is required''))
      else if provider (embeddingConfig config) \<notin> set [js ''transformers'', js ''openai'', js ''cohere'']
        then Inl (Error (js ''Invalid embedding provider: '' @ provider (embeddingConfig config)))
      else if provider (embeddingConfig config) \<noteq> js ''transformers''
              \<and> (apiKey (embeddingConfig config) = None \<or> apiKey (embeddingConfig config) = Some [])
        then Inl (Error (js ''API key required for '' @ provider (embeddingConfig config)
                           @ js '' provider''))
      else if strategy (chunkingOptions config) \<notin> set [js ''sentence'', js ''paragraph'', js ''fixed'']
        then Inl (Error (js ''Invalid chunking strategy: '' @ strategy (chunkingOptions config)))
      else if chunkSize (chunkingOptions config) < 100
        then Inl (Error (js ''Chunk size must be at least 100 characters''))
      else if chunkOverlap (chunkingOptions config) \<ge> chunkSize (chunkingOptions config)
        then Inl (Error (js ''Chunk overlap must be less than chunk size''))
      else Inr ())"

section \<open>Input validation (utils/validation.ts)\<close>

text \<open>The character class \<open>[a-zA-Z0-9_-]\<close> of \<open>validateDocumentId\<close>.\<close>

definition id_char :: "jschar \<Rightarrow> bool" where
  "id_char c =
     ((0x61 \<le> c \<and> c \<le> 0x7A) \<or> (0x41 \<le> c \<and> c \<le> 0x5A) \<or> (0x30 \<le> c \<and> c \<le> 0x39)
      \<or> c = 0x5F \<or> c = 0x2D)"

definition validateDocumentId :: "jsstring \<Rightarrow> error + unit" where
  "validateDocumentId documentId' =
     (if documentId' = [] then
        Inl (Error (js ''Invalid document ID: must be a non-empty string''))
      else if \<not> list_all id_char documentId' then
        Inl (Error (js ''Invalid document ID: can only contain alphanumeric characters, hyphens, and underscores''))
      else Inr ())"

definition validateSearchQuery :: "jsstring \<Rightarrow> error + unit" where
  "validateSearchQuery q =
     (if q = [] then Inl (Error (js ''Invalid search query: must be a non-empty string''))
      else if trim q = [] then
        Inl (Error (js ''Invalid search query: cannot be empty or only whitespace''))
      else if length q > 10000 then
        Inl (Error (js ''Invalid search query: exceeds maximum length of 10000 characters''))
      else Inr ())"

text \<open>
  \<open>validateMetadata\<close> bounds the length of \<open>JSON.stringify(metadata)\<close>; that length is
  the parameter \<open>jsonSize\<close>. The argument is an object, as its callers' types say.
\<close>

definition validateMetadata :: "(jsobject \<Rightarrow> nat) \<Rightarrow> jsobject \<Rightarrow> error + unit" where
  "validateMetadata jsonSize md =
     (if jsonSize md > 100000 then
        Inl (Error (js ''Invalid metadata: exceeds maximum size of 100KB''))
      else Inr ())"

fun json_string :: "json \<Rightarrow> jsstring option" where
  "json_string (JStr s) = Some s"
| "json_string _ = None"

text \<open>
  \<open>validateTags\<close> receives whatever JSON value the request carried: it must be an array,
  of strings only, of at most 100 elements; the result is each tag trimmed, with the empty
  ones dropped.
\<close>

fun validateTags :: "json \<Rightarrow> error + jsstring list" where
  "validateTags (JArr ts) =
     (case those (map json_string ts) of
        None \<Rightarrow> Inl (Error (js ''Invalid tags: all tags must be strings''))
      | Some ss \<Rightarrow>
          if length ss > 100 then Inl (Error (js ''Invalid tags: cannot exceed 100 tags''))
          else Inr (filter (\<lambda>tag. length tag > 0) (map trim ss)))"
| "validateTags _ = Inl (Error (js ''Invalid tags: must be an array''))"

text \<open>The character class \<open>[a-zA-Z0-9._-]\<close> that \<open>sanitizeFilename\<close> keeps.\<close>

definition filename_char :: "jschar \<Rightarrow> bool" where
  "filename_char c = (id_char c \<or> c = 0x2E)"

definition sanitizeFilename :: "jsstring \<Rightarrow> jsstring" where
  "sanitizeFilename name = map (\<lambda>c. if filename_char c then c else 0x5F) name"

text \<open>Truthiness of a JSON value, as \<open>args.tags ? \<dots> : \<dots>\<close> tests it.\<close>

fun js_truthy :: "json \<Rightarrow> bool" where
  "js_truthy JNull = False"
| "js_truthy (JBool b) = b"
| "js_truthy (JNum x) = (x \<noteq> 0)"
| "js_truthy (JStr s) = (s \<noteq> [])"
| "js_truthy (JArr _) = True"
| "js_truthy (JObj _) = True"

section \<open>Document files (storage/filesystem.ts)\<close>

text \<open>
  \<open>FileSystemStorage\<close> keeps one file \<open><id>.json\<close> per document in the storage
  directory; the state is the map from ids to the documents stored there. A missing file
  (\<open>ENOENT\<close>) is the only file-system failure that the model has: reads and writes of
  existing files succeed, and a document read back is the document written. The snapshot
  of the vector index, \<open>vector_index.json\<close>, lies in the same directory; the ids
  considered here are those of documents, and the id \<open>vector_index\<close>, whose file is
  that snapshot, is outside the model.
\<close>

type_synonym FileSystemStorage = "jsstring \<rightharpoonup> Document"

definition saveDocument :: "Document \<Rightarrow> FileSystemStorage \<Rightarrow> FileSystemStorage" where
  "saveDocument d fs = fs(doc_id d \<mapsto> d)"

definition loadDocument :: "jsstring \<Rightarrow> FileSystemStorage \<Rightarrow> Document option" where
  "loadDocument documentId' fs = fs documentId'"

text \<open>\<open>unlink\<close> of a missing file raises \<open>ENOENT\<close>, which the method swallows.\<close>

definition FileSystemStorage_deleteDocument ::
  "jsstring \<Rightarrow> FileSystemStorage \<Rightarrow> FileSystemStorage" where
  "FileSystemStorage_deleteDocument documentId' fs =
     (case fs documentId' of None \<Rightarrow> fs | Some _ \<Rightarrow> fs(documentId' := None))"

definition updateDocument :: "nat \<Rightarrow> Document \<Rightarrow> FileSystemStorage \<Rightarrow> FileSystemStorage" where
  "updateDocument now d fs = saveDocument (d\<lparr>updatedAt := now\<rparr>) fs"

section \<open>The file-based vector store (class ChromaStorage)\<close>

record IndexEntry =
  entry_embedding :: "jsnumber list option"
  entry_documentId :: jsstring
  chunkIndex :: nat

text \<open>
  \<open>vectorIndex\<close> is a JavaScript object keyed by chunk id. \<open>Object.entries\<close> and
  \<open>Object.keys\<close> list such keys in insertion order, and an assignment to an existing key
  keeps its place: an association list with \<open>AList.update\<close>.
\<close>

record ChromaStorage =
  fileStorage :: FileSystemStorage
  vectorIndex :: "(jsstring \<times> IndexEntry) list"

text \<open>
  \<open>cosineSimilarity\<close>: the loop over the components, then the quotient. The literal
  \<open>0\<close> that it returns for vectors of different lengths, or for a zero norm, involves no
  arithmetic.
\<close>

definition cosine_step ::
  "Arith \<Rightarrow> jsnumber \<times> jsnumber \<times> jsnumber \<Rightarrow> jsnumber \<times> jsnumber
     \<Rightarrow> jsnumber \<times> jsnumber \<times> jsnumber" where
  "cosine_step ar acc p =
     (case acc of (dotProduct, normA, normB) \<Rightarrow>
        (fadd ar dotProduct (fmul ar (fst p) (snd p)),
         fadd ar normA (fmul ar (fst p) (fst p)),
         fadd ar normB (fmul ar (snd p) (snd p))))"

definition cosineSimilarity :: "Arith \<Rightarrow> jsnumber list \<Rightarrow> jsnumber list \<Rightarrow> jsnumber" where
  "cosineSimilarity ar a b =
     (if length a \<noteq> length b then Finite 0
      else case foldl (cosine_step ar) (Finite 0, Finite 0, Finite 0) (zip a b) of
        (dotProduct, normA, normB) \<Rightarrow>
          if normA = Finite 0 \<or> normB = Finite 0 then Finite 0
          else fdiv ar dotProduct (fmul ar (fsqrt ar normA) (fsqrt ar normB)))"

definition chunkId_of :: "jsstring \<Rightarrow> nat \<Rightarrow> jsstring" where
  "chunkId_of documentId' i = documentId' @ js ''_chunk_'' @ number_toString i"

definition store_chunk ::
  "jsstring \<Rightarrow> DocumentChunk \<Rightarrow> (jsstring \<times> IndexEntry) list \<Rightarrow> (jsstring \<times> IndexEntry) list" where
  "store_chunk documentId' c idx =
     AList.update (chunkId_of documentId' (index c))
       \<lparr>entry_embedding = embedding c, entry_documentId = documentId', chunkIndex = index c\<rparr> idx"

definition storeDocument :: "Document \<Rightarrow> ChromaStorage \<Rightarrow> ChromaStorage" where
  "storeDocument d st =
     st\<lparr>fileStorage := saveDocument d (fileStorage st),
        vectorIndex := fold (store_chunk (doc_id d)) (chunks d) (vectorIndex st)\<rparr>"

definition getDocument :: "jsstring \<Rightarrow> ChromaStorage \<Rightarrow> Document option" where
  "getDocument documentId' st = loadDocument documentId' (fileStorage st)"

definition ChromaStorage_deleteDocument :: "jsstring \<Rightarrow> ChromaStorage \<Rightarrow> ChromaStorage" where
  "ChromaStorage_deleteDocument documentId' st =
     (let keysToDelete =
            map fst (filter (\<lambda>kv. entry_documentId (snd kv) = documentId') (vectorIndex st))
      in st\<lparr>fileStorage := FileSystemStorage_deleteDocument documentId' (fileStorage st),
            vectorIndex := fold AList.delete keysToDelete (vectorIndex st)\<rparr>)"

text \<open>\<open>{ ...document.metadata, ...metadata }\<close>: each field present in the update wins.\<close>

definition merge_metadata :: "DocumentMetadata \<Rightarrow> PartialMetadata \<Rightarrow> DocumentMetadata" where
  "merge_metadata m u =
     \<lparr>filename = (case p_filename u of None \<Rightarrow> filename m | Some x \<Rightarrow> Some x),
      filePath = (case p_filePath u of None \<Rightarrow> filePath m | Some x \<Rightarrow> Some x),
      fileType = (case p_fileType u of None \<Rightarrow> fileType m | Some x \<Rightarrow> x),
      tags = (case p_tags u of None \<Rightarrow> tags m | Some x \<Rightarrow> x),
      customMetadata = (case p_customMetadata u of None \<Rightarrow> customMetadata m | Some x \<Rightarrow> x),
      doc_size = (case p_size u of None \<Rightarrow> doc_size m | Some x \<Rightarrow> Some x),
      pageCount = (case p_pageCount u of None \<Rightarrow> pageCount m | Some x \<Rightarrow> Some x)\<rparr>"

definition ChromaStorage_updateDocumentMetadata ::
  "nat \<Rightarrow> jsstring \<Rightarrow> PartialMetadata \<Rightarrow> ChromaStorage \<Rightarrow> error + ChromaStorage" where
  "ChromaStorage_updateDocumentMetadata now documentId' u st =
     (case getDocument documentId' st of
        None \<Rightarrow>
          Inl (Error (js ''Metadata update failed: '' @ js ''Document not found: '' @ documentId'))
      | Some d \<Rightarrow>
          Inr (st\<lparr>fileStorage :=
                 updateDocument now
                   (d\<lparr>metadata := merge_metadata (metadata d) u, updatedAt := now\<rparr>)
                   (fileStorage st)\<rparr>))"

subsection \<open>Similarity search\<close>

record Similarity =
  sim_chunkId :: jsstring
  sim_score :: jsnumber
  sim_documentId :: jsstring
  sim_chunkIndex :: nat

text \<open>\<open>options.maxResults || 10\<close>: an absent or zero limit is replaced by 10.\<close>

definition maxResults_of :: "SearchOptions \<Rightarrow> int" where
  "maxResults_of opts = (case maxResults opts of None \<Rightarrow> 10 | Some k \<Rightarrow> if k = 0 then 10 else k)"

text \<open>
  \<open>options.similarityThreshold && score < options.similarityThreshold\<close>: an absent
  threshold, a zero and \<open>NaN\<close> are falsy and drop nothing.
\<close>

definition below_threshold :: "SearchOptions \<Rightarrow> jsnumber \<Rightarrow> bool" where
  "below_threshold opts s =
     (case similarityThreshold opts of
        None \<Rightarrow> False
      | Some t \<Rightarrow> number_truthy t \<and> js_less s t)"

text \<open>
  One iteration of the scoring loop. An entry that holds no embedding makes
  \<open>cosineSimilarity\<close> read \<open>length\<close> of \<open>undefined\<close>: a \<open>TypeError\<close>, which the
  method's handler rethrows.
\<close>

definition score_entry ::
  "Arith \<Rightarrow> jsnumber list \<Rightarrow> SearchOptions \<Rightarrow> jsstring \<times> IndexEntry \<Rightarrow> error + Similarity list" where
  "score_entry ar q opts kv =
     (case entry_embedding (snd kv) of
        None \<Rightarrow>
          Inl (Error (js ''Search failed: '' @ js ''Cannot read properties of undefined (reading ''
                      @ [0x27] @ js ''length'' @ [0x27] @ js '')''))
      | Some e \<Rightarrow>
          (let s = cosineSimilarity ar q e
           in if below_threshold opts s then Inr []
              else Inr [\<lparr>sim_chunkId = fst kv, sim_score = s,
                         sim_documentId = entry_documentId (snd kv),
                         sim_chunkIndex = chunkIndex (snd kv)\<rparr>]))"

fun score_entries ::
  "Arith \<Rightarrow> jsnumber list \<Rightarrow> SearchOptions \<Rightarrow> (jsstring \<times> IndexEntry) list
     \<Rightarrow> error + Similarity list" where
  "score_entries ar q opts [] = Inr []"
| "score_entries ar q opts (kv # rest) =
     (case score_entry ar q opts kv of
        Inl e \<Rightarrow> Inl e
      | Inr here \<Rightarrow>
          (case score_entries ar q opts rest of
             Inl e \<Rightarrow> Inl e
           | Inr later \<Rightarrow> Inr (here @ later)))"

text \<open>
  \<open>similarities.sort((a, b) => b.score - a.score)\<close> followed by
  \<open>slice(0, maxResults)\<close>.
\<close>

definition compare_scores :: "Arith \<Rightarrow> Similarity \<Rightarrow> Similarity \<Rightarrow> jsnumber" where
  "compare_scores ar a b = fsub ar (sim_score b) (sim_score a)"

definition topResults :: "Arith \<Rightarrow> SearchOptions \<Rightarrow> Similarity list \<Rightarrow> Similarity list option" where
  "topResults ar opts sims =
     map_option (\<lambda>sorted. js_slice sorted 0 (maxResults_of opts))
       (array_sort (compare_scores ar) sims)"

definition hasMatchingTag :: "jsstring list \<Rightarrow> Document \<Rightarrow> bool" where
  "hasMatchingTag wanted d = list_ex (\<lambda>tag. tag \<in> set (tags (metadata d))) wanted"

text \<open>
  One iteration of the loop that builds the search results: the hit is skipped when its
  document is gone, when a tag filter is given and no wanted tag is on the document, or when
  the document has no chunk of that index.
\<close>

definition build_result ::
  "Arith \<Rightarrow> SearchOptions \<Rightarrow> ChromaStorage \<Rightarrow> Similarity \<Rightarrow> SearchResult list" where
  "build_result ar opts st r =
     (case getDocument (sim_documentId r) st of
        None \<Rightarrow> []
      | Some d \<Rightarrow>
          if (case filterTags opts of None \<Rightarrow> False
              | Some wanted \<Rightarrow> length wanted > 0 \<and> \<not> hasMatchingTag wanted d)
          then []
          else (case find (\<lambda>c. index c = sim_chunkIndex r) (chunks d) of
                  None \<Rightarrow> []
                | Some c \<Rightarrow>
                    [\<lparr>chunk = c, document = d, score = sim_score r,
                      distance = fsub ar (Finite 1) (sim_score r)\<rparr>]))"

text \<open>
  The scored, thresholded, sorted and truncated hits, before documents are loaded; and the
  search. The outer \<open>option\<close> is \<open>None\<close> where the sort leaves the order of the hits
  implementation-defined.
\<close>

definition ranked_hits ::
  "Arith \<Rightarrow> jsnumber list \<Rightarrow> SearchOptions \<Rightarrow> ChromaStorage \<Rightarrow> (error + Similarity list) option" where
  "ranked_hits ar q opts st =
     (case score_entries ar q opts (vectorIndex st) of
        Inl e \<Rightarrow> Some (Inl e)
      | Inr similarities \<Rightarrow> map_option Inr (topResults ar opts similarities))"

definition searchSimilar ::
  "Arith \<Rightarrow> jsnumber list \<Rightarrow> SearchOptions \<Rightarrow> ChromaStorage
     \<Rightarrow> (error + SearchResult list) option" where
  "searchSimilar ar q opts st =
     (case ranked_hits ar q opts st of
        None \<Rightarrow> None
      | Some (Inl e) \<Rightarrow> Some (Inl e)
      | Some (Inr hits) \<Rightarrow> Some (Inr (concat (map (build_result ar opts st) hits))))"

section \<open>The search tool (tools/search.ts)\<close>

record SearchArgs =
  arg_query :: jsstring
  max_results :: "int option"
  similarity_threshold :: "jsnumber option"
  filter_metadata :: "jsobject option"
  filter_tags :: "jsstring list option"

record FormattedResult =
  fr_content :: jsstring
  fr_source :: jsstring
  fr_score :: jsnumber
  fr_metadata :: jsobject
  chunk_index :: nat

text \<open>
  \<open>searchOptions\<close> as \<open>searchKnowledge\<close> builds it: \<open>args.max_results || 10\<close> and
  \<open>args.similarity_threshold || 0.0\<close>.
\<close>

definition searchOptions_of :: "SearchArgs \<Rightarrow> SearchOptions" where
  "searchOptions_of args =
     \<lparr>query = arg_query args,
      maxResults = Some (case max_results args of None \<Rightarrow> 10 | Some k \<Rightarrow> if k = 0 then 10 else k),
      similarityThreshold =
        Some (case similarity_threshold args of
                None \<Rightarrow> Finite 0
              | Some t \<Rightarrow> if number_truthy t then t else Finite 0),
      filterMetadata = filter_metadata args,
      filterTags = filter_tags args\<rparr>"

definition format_result :: "SearchResult \<Rightarrow> FormattedResult" where
  "format_result r =
     \<lparr>fr_content = chunk_content (chunk r),
      fr_source = (case filename (metadata (document r)) of
                     None \<Rightarrow> doc_id (document r)
                   | Some n \<Rightarrow> if n = [] then doc_id (document r) else n),
      fr_score = score r,
      fr_metadata =
        [js ''document_id'' \<mapsto> JStr (doc_id (document r)),
         js ''file_type'' \<mapsto> JStr (fileType (metadata (document r))),
         js ''tags'' \<mapsto> JArr (map JStr (tags (metadata (document r))))]
        ++ customMetadata (metadata (document r)),
      chunk_index = index (chunk r)\<rparr>"

text \<open>
  The embedding provider and \<open>JSON.stringify\<close> are collaborators:
  \<open>generateEmbedding\<close> either throws or returns a vector. Every failure is rethrown as
  \<open>Search failed: \<dots>\<close>.
\<close>

definition search_failed :: "error \<Rightarrow> error" where
  "search_failed e = Error (js ''Search failed: '' @ error_message e)"

definition searchKnowledge ::
  "Arith \<Rightarrow> (jsobject \<Rightarrow> nat) \<Rightarrow> (jsstring \<Rightarrow> error + jsnumber list) \<Rightarrow> SearchArgs
     \<Rightarrow> ChromaStorage \<Rightarrow> (error + FormattedResult list) option" where
  "searchKnowledge ar jsonSize generateEmbedding args st =
     (case validateSearchQuery (arg_query args) of
        Inl e \<Rightarrow> Some (Inl (search_failed e))
      | Inr _ \<Rightarrow>
          (case (case filter_metadata args of None \<Rightarrow> Inr ()
                 | Some f \<Rightarrow> validateMetadata jsonSize f) of
             Inl e \<Rightarrow> Some (Inl (search_failed e))
           | Inr _ \<Rightarrow>
               (case generateEmbedding (arg_query args) of
                  Inl e \<Rightarrow> Some (Inl (search_failed e))
                | Inr queryEmbedding \<Rightarrow>
                    (case searchSimilar ar queryEmbedding (searchOptions_of args) st of
                       None \<Rightarrow> None
                     | Some (Inl e) \<Rightarrow> Some (Inl (search_failed e))
                     | Some (Inr results) \<Rightarrow> Some (Inr (map format_result results))))))"

section \<open>Document management (tools/management.ts)\<close>

record ToolResult =
  success :: bool
  tool_message :: jsstring

definition ManagementTool_deleteDocument ::
  "jsstring \<Rightarrow> ChromaStorage \<Rightarrow> ToolResult \<times> ChromaStorage" where
  "ManagementTool_deleteDocument document_id st =
     (case validateDocumentId document_id of
        Inl e \<Rightarrow> (\<lparr>success = False, tool_message = error_message e\<rparr>, st)
      | Inr _ \<Rightarrow>
          (case getDocument document_id st of
             None \<Rightarrow>
               (\<lparr>success = False, tool_message = js ''Document not found: '' @ document_id\<rparr>, st)
           | Some _ \<Rightarrow>
               (\<lparr>success = True,
                 tool_message = js ''Document '' @ document_id @ js '' deleted successfully''\<rparr>,
                ChromaStorage_deleteDocument document_id st)))"

record UpdateArgs =
  upd_document_id :: jsstring
  upd_metadata :: "jsobject option"
  upd_tags :: "json option"

text \<open>
  \<open>args.tags ? validateTags(args.tags) : undefined\<close>, then \<open>if (tags)\<close>: an array,
  even an empty one, is truthy.
\<close>

definition update_tags :: "json option \<Rightarrow> error + jsstring list option" where
  "update_tags t =
     (case t of
        None \<Rightarrow> Inr None
      | Some v \<Rightarrow>
          if js_truthy v then
            (case validateTags v of Inl e \<Rightarrow> Inl e | Inr ts \<Rightarrow> Inr (Some ts))
          else Inr None)"

definition metadata_updates ::
  "Document \<Rightarrow> jsobject option \<Rightarrow> jsstring list option \<Rightarrow> PartialMetadata" where
  "metadata_updates d md ts =
     \<lparr>p_filename = None, p_filePath = None, p_fileType = None,
      p_tags = ts,
      p_customMetadata = (case md of None \<Rightarrow> None
                          | Some m \<Rightarrow> Some (customMetadata (metadata d) ++ m)),
      p_size = None, p_pageCount = None\<rparr>"

definition failure :: "error \<Rightarrow> ChromaStorage \<Rightarrow> ToolResult \<times> ChromaStorage" where
  "failure e st = (\<lparr>success = False, tool_message = error_message e\<rparr>, st)"

definition ManagementTool_updateDocumentMetadata ::
  "(jsobject \<Rightarrow> nat) \<Rightarrow> nat \<Rightarrow> UpdateArgs \<Rightarrow> ChromaStorage \<Rightarrow> ToolResult \<times> ChromaStorage" where
  "ManagementTool_updateDocumentMetadata jsonSize now args st =
     (case validateDocumentId (upd_document_id args) of
        Inl e \<Rightarrow> failure e st
      | Inr _ \<Rightarrow>
          (case (case upd_metadata args of None \<Rightarrow> Inr ()
                 | Some m \<Rightarrow> validateMetadata jsonSize m) of
             Inl e \<Rightarrow> failure e st
           | Inr _ \<Rightarrow>
               (case update_tags (upd_tags args) of
                  Inl e \<Rightarrow> failure e st
                | Inr ts \<Rightarrow>
                    (case getDocument (upd_document_id args) st of
                       None \<Rightarrow>
                         failure (Error (js ''Document not found: '' @ upd_document_id args)) st
                     | Some d \<Rightarrow>
                         (case ChromaStorage_updateDocumentMetadata now (upd_document_id args)
                                 (metadata_updates d (upd_metadata args) ts) st of
                            Inl e \<Rightarrow> failure e st
                          | Inr st' \<Rightarrow>
                              (\<lparr>success = True,
                                tool_message = js ''Document metadata updated successfully''\<rparr>,
                               st'))))))"

section \<open>Document ingestion (tools/ingest.ts)\<close>

text \<open>
  What the ingestion tool reaches outside the repository's own code is gathered in one
  record: Node's \<open>path\<close> and \<open>fs\<close> modules, \<open>String.prototype.toLowerCase\<close>,
  \<open>JSON.stringify\<close>, the file processors behind \<open>processFile\<close>, the sentence and
  paragraph chunkers, the embedding provider, the MD5 digest in hexadecimal, the directory
  walk \<open>findFiles\<close>, and the reading of \<open>Date.now()\<close> while a given file is ingested.
\<close>

record Stats =
  isFile :: bool
  isDirectory :: bool
  stat_size :: nat

record Env =
  path_resolve :: "jsstring \<Rightarrow> jsstring"
  path_basename :: "jsstring \<Rightarrow> jsstring"
  path_extname :: "jsstring \<Rightarrow> jsstring"
  toLowerCase :: "jsstring \<Rightarrow> jsstring"
  fs_stat :: "jsstring \<rightharpoonup> Stats"
  processFile :: "jsstring \<Rightarrow> error + jsstring"
  jsonSize_of :: "jsobject \<Rightarrow> nat"
  sentenceChunk :: "jsstring \<Rightarrow> ChunkingOptions \<Rightarrow> error + DocumentChunk list"
  paragraphChunk :: "jsstring \<Rightarrow> ChunkingOptions \<Rightarrow> error + DocumentChunk list"
  generateEmbeddings :: "jsstring list \<Rightarrow> error + jsnumber list list"
  md5_hex :: "jsstring \<Rightarrow> jsstring"
  findFiles :: "jsstring \<Rightarrow> jsstring list \<Rightarrow> bool \<Rightarrow> error + jsstring list"
  clock :: "jsstring \<Rightarrow> nat"

fun js_includes :: "'a list \<Rightarrow> 'a list \<Rightarrow> bool" where
  "js_includes [] needle = (needle = [])"
| "js_includes (x # xs) needle = (prefix needle (x # xs) \<or> js_includes xs needle)"

definition int_toString :: "int \<Rightarrow> jsstring" where
  "int_toString i = (if i < 0 then js ''-'' @ number_toString (nat (- i)) else number_toString (nat i))"

fun join :: "jsstring \<Rightarrow> jsstring list \<Rightarrow> jsstring" where
  "join sep [] = []"
| "join sep [x] = x"
| "join sep (x # y # ys) = x @ sep @ join sep (y # ys)"

definition validateFilePath :: "Env \<Rightarrow> jsstring \<Rightarrow> error + unit" where
  "validateFilePath env p =
     (if js_includes (path_resolve env p) (js ''..'') then
        Inl (Error (js ''Invalid file path: directory traversal detected''))
      else case fs_stat env (path_resolve env p) of
        None \<Rightarrow> Inl (Error (js ''File not found: '' @ p))
      | Some stats \<Rightarrow>
          if \<not> isFile stats then Inl (Error (js ''Path is not a file: '' @ p)) else Inr ())"

definition validateFileSize :: "Env \<Rightarrow> jsstring \<Rightarrow> int \<Rightarrow> error + unit" where
  "validateFileSize env p maxSize =
     (case fs_stat env (path_resolve env p) of
        None \<Rightarrow>
          Inl (Error (js ''ENOENT: no such file or directory, stat '' @ [0x27] @ p @ [0x27]))
      | Some stats \<Rightarrow>
          if int (stat_size stats) > maxSize then
            Inl (Error (js ''File size ('' @ number_toString (stat_size stats)
                        @ js '' bytes) exceeds maximum allowed size ('' @ int_toString maxSize
                        @ js '' bytes)''))
          else Inr ())"

text \<open>\<open>path.extname(p).toLowerCase().slice(1)\<close>.\<close>

definition file_ext :: "Env \<Rightarrow> jsstring \<Rightarrow> jsstring" where
  "file_ext env p = drop 1 (toLowerCase env (path_extname env p))"

definition validateFileType :: "Env \<Rightarrow> jsstring \<Rightarrow> jsstring list \<Rightarrow> error + unit" where
  "validateFileType env p allowedTypes =
     (if file_ext env p \<notin> set allowedTypes then
        Inl (Error (js ''File type '' @ [0x27] @ file_ext env p @ [0x27]
                    @ js '' is not allowed. Allowed types: ''
                    @ join (js '', '') allowedTypes))
      else Inr ())"


text \<open>
  \<open>generateDocumentId\<close>: the clock reading \<open>now\<close> is \<open>Date.now()\<close>; the suffix is the
  first eight hexadecimal digits of the MD5 digest of \<open><sanitized>_<timestamp>\<close>.
\<close>

definition generateDocumentId :: "Env \<Rightarrow> jsstring \<Rightarrow> nat \<Rightarrow> jsstring" where
  "generateDocumentId env name now =
     (let sanitized = sanitizeFilename name;
          hash = js_slice (md5_hex env (sanitized @ js ''_'' @ number_toString now)) 0 8
      in js ''doc_'' @ number_toString now @ js ''_'' @ hash)"

text \<open>
  \<open>getChunkingStrategy\<close> returns a chunker or throws. The fixed-size chunker may fail to
  return, so a chunker's result is optional.
\<close>

definition getChunkingStrategy ::
  "Env \<Rightarrow> jsstring
     \<Rightarrow> error + (jsstring \<Rightarrow> ChunkingOptions \<Rightarrow> (error + DocumentChunk list) option)" where
  "getChunkingStrategy env name =
     (if toLowerCase env name = js ''sentence'' then
        Inr (\<lambda>t opts. Some (sentenceChunk env t opts))
      else if toLowerCase env name = js ''paragraph'' then
        Inr (\<lambda>t opts. Some (paragraphChunk env t opts))
      else if toLowerCase env name = js ''fixed'' then
        Inr (\<lambda>t opts. map_option Inr (FixedChunking_chunk t opts))
      else Inl (Error (js ''Unknown chunking strategy: '' @ name)))"

record IngestArgs =
  file_path :: "jsstring option"
  text_content :: "jsstring option"
  ing_metadata :: "jsobject option"
  ing_tags :: "json option"

definition given :: "jsstring option \<Rightarrow> bool" where
  "given s = (case s of None \<Rightarrow> False | Some v \<Rightarrow> v \<noteq> [])"

record Source =
  src_content :: jsstring
  src_filename :: jsstring
  src_fileType :: jsstring
  src_filePath :: "jsstring option"

text \<open>The first part of \<open>ingestDocument\<close>: argument checks and text acquisition.\<close>

definition acquire :: "Env \<Rightarrow> ServerConfig \<Rightarrow> IngestArgs \<Rightarrow> error + Source" where
  "acquire env config args =
     (if \<not> given (file_path args) \<and> \<not> given (text_content args) then
        Inl (Error (js ''Either file_path or text_content must be provided''))
      else if given (file_path args) \<and> given (text_content args) then
        Inl (Error (js ''Cannot provide both file_path and text_content''))
      else case file_path args of
        Some p \<Rightarrow>
          if p \<noteq> [] then
            (case validateFilePath env p of
               Inl e \<Rightarrow> Inl e
             | Inr _ \<Rightarrow>
                 (case validateFileSize env p (maxFileSize config) of
                    Inl e \<Rightarrow> Inl e
                  | Inr _ \<Rightarrow>
                      (case validateFileType env p (allowedFileTypes config) of
                         Inl e \<Rightarrow> Inl e
                       | Inr _ \<Rightarrow>
                           (case processFile env p of
                              Inl e \<Rightarrow> Inl e
                            | Inr text \<Rightarrow>
                                Inr \<lparr>src_content = text, src_filename = path_basename env p,
                                     src_fileType = file_ext env p, src_filePath = Some p\<rparr>))))
          else
            Inr \<lparr>src_content = (case text_content args of None \<Rightarrow> [] | Some t \<Rightarrow> t),
                 src_filename = js ''text_content'', src_fileType = js ''txt'',
                 src_filePath = None\<rparr>
      | None \<Rightarrow>
          Inr \<lparr>src_content = (case text_content args of None \<Rightarrow> [] | Some t \<Rightarrow> t),
               src_filename = js ''text_content'', src_fileType = js ''txt'',
               src_filePath = None\<rparr>)"

text \<open>
  \<open>args.metadata || {}\<close>, validated when it has a key; and
  \<open>args.tags ? validateTags(args.tags) : []\<close>.
\<close>

definition ingest_metadata :: "Env \<Rightarrow> jsobject option \<Rightarrow> error + jsobject" where
  "ingest_metadata env md =
     (let m = (case md of None \<Rightarrow> Map.empty | Some x \<Rightarrow> x)
      in if m \<noteq> Map.empty then
           (case validateMetadata (jsonSize_of env) m of Inl e \<Rightarrow> Inl e | Inr _ \<Rightarrow> Inr m)
         else Inr m)"

definition ingest_tags :: "json option \<Rightarrow> error + jsstring list" where
  "ingest_tags t =
     (case t of
        None \<Rightarrow> Inr []
      | Some v \<Rightarrow> if js_truthy v then validateTags v else Inr [])"

text \<open>
  \<open>chunks.map((chunk, index) => \<dots>)\<close>: ids from the array position, the embedding at
  that position if the provider returned one.
\<close>

definition process_chunk :: "jsstring \<Rightarrow> jsnumber list list \<Rightarrow> nat \<times> DocumentChunk \<Rightarrow> DocumentChunk" where
  "process_chunk documentId' embeddings ic =
     (snd ic)\<lparr>chunk_id := chunkId_of documentId' (fst ic),
              documentId := documentId',
              embedding := (if fst ic < length embeddings then Some (embeddings ! fst ic)
                            else None)\<rparr>"

definition ingest_error :: "error \<Rightarrow> IngestResult" where
  "ingest_error e =
     \<lparr>ingest_documentId = [], chunksCreated = 0, status = js ''error'',
      ingest_message = error_message e\<rparr>"

definition assemble ::
  "jsstring \<Rightarrow> nat \<Rightarrow> Source \<Rightarrow> jsobject \<Rightarrow> jsstring list \<Rightarrow> DocumentChunk list \<Rightarrow> Document" where
  "assemble documentId' now src md ts processedChunks =
     \<lparr>doc_id = documentId',
      content = src_content src,
      metadata =
        \<lparr>filename = Some (src_filename src), filePath = src_filePath src,
         fileType = src_fileType src, tags = ts, customMetadata = md,
         doc_size = Some (length (src_content src)), pageCount = None\<rparr>,
      chunks = processedChunks,
      createdAt = now, updatedAt = now\<rparr>"

text \<open>
  The body of \<open>ingestDocument\<close>'s \<open>try\<close> block up to the assembled document. The
  outer \<open>option\<close> is \<open>None\<close> when the chunker does not return. The clock readings of
  one ingestion are one reading \<open>now\<close>.
\<close>

definition prepare_document ::
  "Env \<Rightarrow> ServerConfig \<Rightarrow> nat \<Rightarrow> IngestArgs \<Rightarrow> (error + Document) option" where
  "prepare_document env config now args =
     (case acquire env config args of
        Inl e \<Rightarrow> Some (Inl e)
      | Inr src \<Rightarrow>
     (case ingest_metadata env (ing_metadata args) of
        Inl e \<Rightarrow> Some (Inl e)
      | Inr md \<Rightarrow>
     (case ingest_tags (ing_tags args) of
        Inl e \<Rightarrow> Some (Inl e)
      | Inr ts \<Rightarrow>
     (case getChunkingStrategy env (strategy (chunkingOptions config)) of
        Inl e \<Rightarrow> Some (Inl e)
      | Inr chunker \<Rightarrow>
     (case chunker (src_content src) (chunkingOptions config) of
        None \<Rightarrow> None
      | Some (Inl e) \<Rightarrow> Some (Inl e)
      | Some (Inr cs) \<Rightarrow>
     (case generateEmbeddings env (map chunk_content cs) of
        Inl e \<Rightarrow> Some (Inl e)
      | Inr embeddings \<Rightarrow>
          (let documentId' = generateDocumentId env (src_filename src) now
           in Some (Inr (assemble documentId' now src md ts
                           (map (process_chunk documentId' embeddings) (enumerate 0 cs)))))))))))"

definition ingest_success :: "Document \<Rightarrow> IngestResult" where
  "ingest_success d =
     \<lparr>ingest_documentId = doc_id d,
      chunksCreated = length (chunks d),
      status = js ''success'',
      ingest_message = js ''Document ingested successfully with ''
        @ number_toString (length (chunks d)) @ js '' chunks''\<rparr>"

text \<open>
  \<open>ingestDocument\<close> never throws: its handler turns every error into a result of status
  \<open>error\<close>, and then the store is as it was.
\<close>

definition ingestDocument ::
  "Env \<Rightarrow> ServerConfig \<Rightarrow> nat \<Rightarrow> IngestArgs \<Rightarrow> ChromaStorage
     \<Rightarrow> (IngestResult \<times> ChromaStorage) option" where
  "ingestDocument env config now args st =
     (case prepare_document env config now args of
        None \<Rightarrow> None
      | Some (Inl e) \<Rightarrow> Some (ingest_error e, st)
      | Some (Inr d) \<Rightarrow> Some (ingest_success d, storeDocument d st))"

subsection \<open>Batch ingestion\<close>

definition record_result :: "jsstring \<Rightarrow> IngestResult \<Rightarrow> BatchIngestResult \<Rightarrow> BatchIngestResult" where
  "record_result file result acc =
     (if status result = js ''success'' then
        acc\<lparr>documents := documents acc @ [result], successCount := successCount acc + 1\<rparr>
      else
        acc\<lparr>documents := documents acc @ [result], failedCount := failedCount acc + 1,
            errors := errors acc
              @ [(file, if ingest_message result = [] then js ''Unknown error''
                        else ingest_message result)]\<rparr>)"

text \<open>
  The \<open>for (const file of files)\<close> loop; each file is ingested by
  \<open>ingestDocument({ file_path: file })\<close>, one after the other.
\<close>

definition file_args :: "jsstring \<Rightarrow> IngestArgs" where
  "file_args file =
     \<lparr>file_path = Some file, text_content = None, ing_metadata = None, ing_tags = None\<rparr>"

fun batchIngest_loop ::
  "Env \<Rightarrow> ServerConfig \<Rightarrow> jsstring list \<Rightarrow> BatchIngestResult \<Rightarrow> ChromaStorage
     \<Rightarrow> (BatchIngestResult \<times> ChromaStorage) option" where
  "batchIngest_loop env config [] acc st = Some (acc, st)"
| "batchIngest_loop env config (file # files) acc st =
     (case ingestDocument env config (clock env file) (file_args file) st of
        None \<Rightarrow> None
      | Some (result, st') \<Rightarrow> batchIngest_loop env config files (record_result file result acc) st')"






text \<open>The text processor (processors/text.ts), one of the processors behind \<open>processFile\<close>.\<close>

definition TextProcessor_process :: "(jsstring \<rightharpoonup> jsstring) \<Rightarrow> jsstring \<Rightarrow> error + jsstring" where
  "TextProcessor_process readFile p =
     (case readFile p of
        None \<Rightarrow>
          Inl (Error (js ''Text file processing failed: ''
                      @ js ''ENOENT: no such file or directory, open '' @ [0x27] @ p @ [0x27]))
      | Some text \<Rightarrow>
          if text = [] \<or> length (trim text) = 0 then
            Inl (Error (js ''Text file processing failed: '' @ js ''File is empty''))
          else Inr text)"

section \<open>Notions used to state the properties\<close>

text \<open>The half-open character range that a chunk records.\<close>

definition chunk_range :: "DocumentChunk \<Rightarrow> int \<times> int" where
  "chunk_range c = (startChar (chunk_metadata c), endChar (chunk_metadata c))"


text \<open>
  What a search works on, in the words of its description. The candidates are the entries
  of the vector index, in index order, each with its cosine similarity to the query. A
  threshold drops a score when it is a number other than zero and \<open>NaN\<close> and the score is
  less than it. The survivors are the candidates that the threshold does not drop. The
  limit in force is 10 when none or 0 is given.
\<close>

definition candidates :: "Arith \<Rightarrow> jsnumber list \<Rightarrow> ChromaStorage \<Rightarrow> Similarity list" where
  "candidates ar q st =
     List.map_filter
       (\<lambda>kv. map_option
          (\<lambda>e. \<lparr>sim_chunkId = fst kv, sim_score = cosineSimilarity ar q e,
                sim_documentId = entry_documentId (snd kv),
                sim_chunkIndex = chunkIndex (snd kv)\<rparr>)
          (entry_embedding (snd kv)))
       (vectorIndex st)"

definition threshold_drops :: "jsnumber option \<Rightarrow> jsnumber \<Rightarrow> bool" where
  "threshold_drops thr s =
     (case thr of None \<Rightarrow> False | Some t \<Rightarrow> t \<noteq> NaN \<and> t \<noteq> Finite 0 \<and> js_less s t)"

definition survivors :: "Arith \<Rightarrow> jsnumber list \<Rightarrow> SearchOptions \<Rightarrow> ChromaStorage \<Rightarrow> Similarity list" where
  "survivors ar q opts st =
     filter (\<lambda>h. \<not> threshold_drops (similarityThreshold opts) (sim_score h)) (candidates ar q st)"

definition effective_limit :: "int option \<Rightarrow> int" where
  "effective_limit k = (if k = None \<or> k = Some 0 then 10 else the k)"

text \<open>
  A document passes the tag filter when no tags are wanted or it carries one of the wanted
  tags. The search result of a hit: its chunk and its document with the score of the hit,
  if the document is stored, passes the tag filter and has a chunk of the hit's index.
\<close>

definition passes_tag_filter :: "SearchOptions \<Rightarrow> Document \<Rightarrow> bool" where
  "passes_tag_filter opts d =
     (case filterTags opts of
        None \<Rightarrow> True
      | Some wanted \<Rightarrow> wanted = [] \<or> list_ex (\<lambda>t. t \<in> set wanted) (tags (metadata d)))"

definition result_of_hit ::
  "Arith \<Rightarrow> SearchOptions \<Rightarrow> ChromaStorage \<Rightarrow> Similarity \<Rightarrow> SearchResult option" where
  "result_of_hit ar opts st h =
     (case getDocument (sim_documentId h) st of
        None \<Rightarrow> None
      | Some d \<Rightarrow>
          (case find (\<lambda>c. index c = sim_chunkIndex h) (chunks d) of
             None \<Rightarrow> None
           | Some c \<Rightarrow>
               if passes_tag_filter opts d
               then Some \<lparr>chunk = c, document = d, score = sim_score h,
                          distance = fsub ar (Finite 1) (sim_score h)\<rparr>
               else None))"

text \<open>
  A number is finite when it is neither \<open>NaN\<close> nor an infinity; then it has a value.
\<close>

definition is_finite :: "jsnumber \<Rightarrow> bool" where
  "is_finite n = (case n of Finite x \<Rightarrow> True | _ \<Rightarrow> False)"

fun finite_value :: "jsnumber \<Rightarrow> real" where
  "finite_value (Finite x) = x"
| "finite_value _ = 0"

text \<open>
  The tags that are stored for a list of supplied strings: each one trimmed, the empty ones
  left out, order and repetitions kept.
\<close>

definition trimmed_nonempty :: "jsstring list \<Rightarrow> jsstring list" where
  "trimmed_nonempty supplied = filter (\<lambda>t. t \<noteq> []) (map trim supplied)"

text \<open>
  A tag as the data model wants it: not empty and without white space at either end. The
  invariant says that every stored document has such tags only.
\<close>

definition clean_tag :: "jsstring \<Rightarrow> bool" where
  "clean_tag t = (t \<noteq> [] \<and> trim t = t)"

definition tags_clean :: "ChromaStorage \<Rightarrow> bool" where
  "tags_clean st = (\<forall>i d. fileStorage st i = Some d \<longrightarrow> list_all clean_tag (tags (metadata d)))"

definition stored_tags :: "ChromaStorage \<Rightarrow> jsstring \<Rightarrow> jsstring list option" where
  "stored_tags st i = map_option (\<lambda>d. tags (metadata d)) (getDocument i st)"


definition failed :: "IngestResult \<Rightarrow> bool" where
  "failed r = (status r \<noteq> js ''success'')"


text \<open>
  The file name from which \<open>ingestDocument\<close> derives the document id: the base name of
  the file, or \<open>text_content\<close> for raw text.
\<close>

definition ingest_filename :: "Env \<Rightarrow> IngestArgs \<Rightarrow> jsstring" where
  "ingest_filename env args =
     (case file_path args of
        None \<Rightarrow> js ''text_content''
      | Some p \<Rightarrow> if p = [] then js ''text_content'' else path_basename env p)"

section \<open>Concrete inputs\<close>

text \<open>
  The arithmetic of the examples: exact on finite numbers. The examples compute with the
  integers from -1 to 2 only, on which every operation of double arithmetic that they
  perform is exact, so that doubles give the same results there. Its subtraction has the signs of IEEE 754 subtraction on all
  numbers; the other operations are \<open>NaN\<close> outside the finite numbers.
\<close>

fun exact_op :: "(real \<Rightarrow> real \<Rightarrow> real) \<Rightarrow> jsnumber \<Rightarrow> jsnumber \<Rightarrow> jsnumber" where
  "exact_op f (Finite x) (Finite y) = Finite (f x y)"
| "exact_op f _ _ = NaN"

fun exact_sub :: "jsnumber \<Rightarrow> jsnumber \<Rightarrow> jsnumber" where
  "exact_sub (Finite x) (Finite y) = Finite (x - y)"
| "exact_sub NaN _ = NaN"
| "exact_sub _ NaN = NaN"
| "exact_sub PosInfinity PosInfinity = NaN"
| "exact_sub NegInfinity NegInfinity = NaN"
| "exact_sub PosInfinity _ = PosInfinity"
| "exact_sub _ NegInfinity = PosInfinity"
| "exact_sub NegInfinity _ = NegInfinity"
| "exact_sub _ PosInfinity = NegInfinity"

fun exact_sqrt :: "jsnumber \<Rightarrow> jsnumber" where
  "exact_sqrt (Finite x) = (if x < 0 then NaN else Finite (sqrt x))"
| "exact_sqrt PosInfinity = PosInfinity"
| "exact_sqrt _ = NaN"

definition exact_arith :: Arith where
  "exact_arith =
     \<lparr>fadd = exact_op (+), fsub = exact_sub, fmul = exact_op (*),
      fdiv = (\<lambda>x y. if y = Finite 0 then NaN else exact_op (/) x y), fsqrt = exact_sqrt\<rparr>"

text \<open>A configuration whose overlap equals its chunk size.\<close>

definition equal_overlap_config :: ServerConfig where
  "equal_overlap_config =
     \<lparr>storageDir = js ''/data/storage'', chromaDbDir = js ''/data/chroma'',
      embeddingConfig = \<lparr>provider = js ''transformers'', model = js ''Xenova/all-MiniLM-L6-v2'',
                         apiKey = None\<rparr>,
      chunkingOptions = \<lparr>chunkSize = 100, chunkOverlap = 100, strategy = js ''fixed''\<rparr>,
      maxFileSize = 104857600, allowedFileTypes = [js ''txt'']\<rparr>"

text \<open>
  A document of one chunk with a given embedding and custom metadata, an empty store, and
  stores built from such documents by \<open>storeDocument\<close>.
\<close>

definition one_chunk_document :: "jsstring \<Rightarrow> jsnumber list \<Rightarrow> jsobject \<Rightarrow> Document" where
  "one_chunk_document i e md =
     \<lparr>doc_id = i, content = js ''text'',
      metadata = \<lparr>filename = Some (i @ js ''.txt''), filePath = None, fileType = js ''txt'',
                  tags = [], customMetadata = md, doc_size = Some 4, pageCount = None\<rparr>,
      chunks = [\<lparr>chunk_id = chunkId_of i 0, documentId = i, chunk_content = js ''text'',
                 index = 0, embedding = Some e,
                 chunk_metadata = \<lparr>startChar = 0, endChar = 4\<rparr>\<rparr>],
      createdAt = 0, updatedAt = 0\<rparr>"

definition empty_store :: ChromaStorage where
  "empty_store = \<lparr>fileStorage = Map.empty, vectorIndex = []\<rparr>"

definition tie_store :: ChromaStorage where
  "tie_store =
     storeDocument (one_chunk_document (js ''a'') [Finite 1, Finite 0] Map.empty)
       (storeDocument (one_chunk_document (js ''b'') [Finite 1, Finite 0] Map.empty) empty_store)"

definition plain_options :: SearchOptions where
  "plain_options = \<lparr>query = js ''q'', maxResults = Some 3, similarityThreshold = None,
     filterMetadata = None, filterTags = None\<rparr>"






text \<open>
  Three documents stored in the order \<open>c\<close>, \<open>a\<close>, \<open>b\<close>: the embedding of \<open>a\<close> has one
  component where the others have two, that of \<open>c\<close> is opposite to that of \<open>b\<close>.
\<close>

definition mixed_store :: ChromaStorage where
  "mixed_store =
     storeDocument (one_chunk_document (js ''b'') [Finite 1, Finite 0] Map.empty)
       (storeDocument (one_chunk_document (js ''a'') [Finite 1] Map.empty)
          (storeDocument (one_chunk_document (js ''c'') [Finite (- 1), Finite 0] Map.empty)
             empty_store))"

definition year_store :: ChromaStorage where
  "year_store =
     storeDocument (one_chunk_document (js ''b'') [Finite 1, Finite 0] [js ''year'' \<mapsto> JNum 2024]) empty_store"

definition year_args :: SearchArgs where
  "year_args = \<lparr>arg_query = js ''report'', max_results = None, similarity_threshold = None,
     filter_metadata = Some [js ''year'' \<mapsto> JNum 1999], filter_tags = None\<rparr>"

definition unit_embedder :: "jsstring \<Rightarrow> error + jsnumber list" where
  "unit_embedder t = Inr [Finite 1, Finite 0]"

definition small_json :: "jsobject \<Rightarrow> nat" where
  "small_json m = 13"

definition year_of :: "FormattedResult \<Rightarrow> json option" where
  "year_of r = fr_metadata r (js ''year'')"

text \<open>
  Updates of the document \<open>b\<close>: a new metadata key together with tags, one of them
  blank; and two tags equal after trimming.
\<close>

definition author_tags_update :: UpdateArgs where
  "author_tags_update = \<lparr>upd_document_id = js ''b'',
     upd_metadata = Some [js ''author'' \<mapsto> JStr (js ''X'')],
     upd_tags = Some (JArr (map JStr [js ''ml '', js '' '', js ''ai'']))\<rparr>"

definition duplicate_tags_update :: UpdateArgs where
  "duplicate_tags_update = \<lparr>upd_document_id = js ''b'', upd_metadata = None,
     upd_tags = Some (JArr [JStr (js ''ai''), JStr (js '' ai '')])\<rparr>"

text \<open>
  A directory of five text files, the third of which holds only blanks, with collaborators
  that always succeed: an embedding provider returning a fixed vector, a fixed digest, and
  a clock standing at one instant; and the ingestion of a text with two tags equal after
  trimming.
\<close>

definition text_args :: "jsstring \<Rightarrow> IngestArgs" where
  "text_args t = \<lparr>file_path = None, text_content = Some t, ing_metadata = None, ing_tags = None\<rparr>"

definition tagged_text_args :: IngestArgs where
  "tagged_text_args = \<lparr>file_path = None, text_content = Some (js ''first''), ing_metadata = None,
     ing_tags = Some (JArr (map JStr [js ''ai'', js '' ai '']))\<rparr>"

definition scenario_files :: "jsstring list" where
  "scenario_files = [js ''/d/1.txt'', js ''/d/2.txt'', js ''/d/3.txt'', js ''/d/4.txt'', js ''/d/5.txt'']"

definition scenario_read :: "jsstring \<rightharpoonup> jsstring" where
  "scenario_read =
     [js ''/d/1.txt'' \<mapsto> js ''one'', js ''/d/2.txt'' \<mapsto> js ''two'', js ''/d/3.txt'' \<mapsto> js ''  '',
      js ''/d/4.txt'' \<mapsto> js ''four'', js ''/d/5.txt'' \<mapsto> js ''five'']"

definition scenario_env :: Env where
  "scenario_env =
     \<lparr>path_resolve = (\<lambda>p. p),
      path_basename = drop 3,
      path_extname = (\<lambda>p. js ''.txt''),
      toLowerCase = (\<lambda>s. s),
      fs_stat = (\<lambda>p. if p = js ''/d'' then Some \<lparr>isFile = False, isDirectory = True, stat_size = 0\<rparr>
                      else if p \<in> set scenario_files
                        then Some \<lparr>isFile = True, isDirectory = False, stat_size = 4\<rparr>
                      else None),
      processFile = TextProcessor_process scenario_read,
      jsonSize_of = (\<lambda>m. 2),
      sentenceChunk = (\<lambda>t opts. Inr []),
      paragraphChunk = (\<lambda>t opts. Inr []),
      generateEmbeddings = (\<lambda>ts. Inr (map (\<lambda>t. [Finite 1, Finite 0]) ts)),
      md5_hex = (\<lambda>s. js ''0123456789abcdef0123456789abcdef''),
      findFiles = (\<lambda>dir patterns rec. Inr scenario_files),
      clock = (\<lambda>file. 1700000000000)\<rparr>"

definition scenario_config :: ServerConfig where
  "scenario_config =
     \<lparr>storageDir = js ''/data/storage'', chromaDbDir = js ''/data/chroma'',
      embeddingConfig = \<lparr>provider = js ''transformers'', model = js ''Xenova/all-MiniLM-L6-v2'',
                         apiKey = None\<rparr>,
      chunkingOptions = \<lparr>chunkSize = 1000, chunkOverlap = 200, strategy = js ''fixed''\<rparr>,
      maxFileSize = 104857600, allowedFileTypes = [js ''txt'']\<rparr>"


section \<open>Strings, slices and trimming\<close>

lemma js_slice_inside:
  "0 \<le> a \<Longrightarrow> a \<le> b \<Longrightarrow> b \<le> int (length xs) \<Longrightarrow>
   js_slice xs a b = take (nat (b - a)) (drop (nat a) xs)"
  by (simp add: js_slice_def Let_def min_def)

lemma dropWhile_all_iff:
  "(\<forall>c \<in> set (dropWhile P s). P c) \<longleftrightarrow> (\<forall>c \<in> set s. P c)"
  by (induction s) auto

lemma trim_eq_Nil_iff: "trim s = [] \<longleftrightarrow> (\<forall>c \<in> set s. js_whitespace c)"
  by (simp add: trim_def dropWhile_all_iff)

lemma trim_slice_replicate:
  "\<not> js_whitespace c \<Longrightarrow> 0 \<le> a \<Longrightarrow> a < b \<Longrightarrow> b \<le> int n \<Longrightarrow>
   trim (js_slice (replicate n c) a b) \<noteq> []"
  by (simp add: trim_eq_Nil_iff js_slice_inside)

lemma letter_a_not_whitespace: "\<not> js_whitespace 0x61"
  by (simp add: js_whitespace_def)

section \<open>Fixed-size chunking\<close>

text \<open>
  With size 1000 and overlap 200 the window starts at 0, 800, 1600 and 2400; on a text of
  2600 characters the loop therefore runs four times, and the last window, from 2400 to
  2600, lies inside the third.
\<close>

lemma last_window_inside_third:
  assumes "length t = 2600" and "trim (js_slice t 2400 2600) \<noteq> []"
  shows "trim (js_slice t 1600 2600) \<noteq> []"
proof -
  from assms obtain c where c: "c \<in> set (take 200 (drop 2400 t))" "\<not> js_whitespace c"
    by (auto simp: trim_eq_Nil_iff js_slice_inside)
  from c(1) have "c \<in> set (drop 2400 t)"
    by (rule in_set_takeD)
  then have "c \<in> set (drop 1600 t)"
    using set_drop_subset_set_drop [of 1600 2400 t] by auto
  with c(2) assms(1) show ?thesis
    by (auto simp: trim_eq_Nil_iff js_slice_inside)
qed

lemma FixedChunking_2600:
  assumes len: "length t = 2600"
    and w1: "trim (js_slice t 0 1000) \<noteq> []"
    and w2: "trim (js_slice t 800 1800) \<noteq> []"
    and w4: "trim (js_slice t 2400 2600) \<noteq> []"
  shows "FixedChunking_chunk t \<lparr>chunkSize = 1000, chunkOverlap = 200, strategy = s\<rparr> =
     Some [fixed_chunk t 0 0 1000, fixed_chunk t 1 800 1800,
           fixed_chunk t 2 1600 2600, fixed_chunk t 3 2400 2600]"
proof -
  note w3 = last_window_inside_third [OF len w4]
  show ?thesis
    unfolding FixedChunking_chunk_def
    apply (subst FixedChunking_loop.simps)
    apply (simp add: len w1 Let_def)
    apply (subst FixedChunking_loop.simps)
    apply (simp add: len w2 Let_def)
    apply (subst FixedChunking_loop.simps)
    apply (simp add: len w3 Let_def)
    apply (subst FixedChunking_loop.simps)
    apply (simp add: len w4 Let_def)
    apply (subst FixedChunking_loop.simps)
    apply (simp add: len Let_def numeral_2_eq_2 numeral_3_eq_3)
    done
qed

lemma chunk_range_fixed_chunk [simp]: "chunk_range (fixed_chunk t i a b) = (a, b)"
  by (simp add: chunk_range_def fixed_chunk_def)

text \<open>
  C1, as the code behaves: for a text of exactly 2600 characters in which the windows
  from 0, 800 and 2400 each hold a character that is not white space, chunking with
  size 1000 and overlap 200 yields exactly four chunks, with the character ranges
  [0,1000), [800,1800), [1600,2600) and [2400,2600).
\<close>

theorem FixedChunking_2600_ranges:
  assumes "length t = 2600"
    and "trim (js_slice t 0 1000) \<noteq> []"
    and "trim (js_slice t 800 1800) \<noteq> []"
    and "trim (js_slice t 2400 2600) \<noteq> []"
  shows "map_option (map chunk_range)
           (FixedChunking_chunk t \<lparr>chunkSize = 1000, chunkOverlap = 200, strategy = js ''fixed''\<rparr>)
         = Some [(0, 1000), (800, 1800), (1600, 2600), (2400, 2600)]"
proof -
  have "FixedChunking_chunk t \<lparr>chunkSize = 1000, chunkOverlap = 200, strategy = js ''fixed''\<rparr>
        = Some [fixed_chunk t 0 0 1000, fixed_chunk t 1 800 1800,
                fixed_chunk t 2 1600 2600, fixed_chunk t 3 2400 2600]"
    using assms by (rule FixedChunking_2600)
  then show ?thesis
    by simp
qed

theorem FixedChunking_2600_ranges_witness:
  "length (replicate 2600 (0x61 :: jschar)) = 2600
   \<and> trim (js_slice (replicate 2600 (0x61 :: jschar)) 0 1000) \<noteq> []
   \<and> trim (js_slice (replicate 2600 (0x61 :: jschar)) 800 1800) \<noteq> []
   \<and> trim (js_slice (replicate 2600 (0x61 :: jschar)) 2400 2600) \<noteq> []
   \<and> map_option (map chunk_range)
        (FixedChunking_chunk (replicate 2600 0x61)
           \<lparr>chunkSize = 1000, chunkOverlap = 200, strategy = js ''fixed''\<rparr>)
      = Some [(0, 1000), (800, 1800), (1600, 2600), (2400, 2600)]"
proof -
  have l: "length (replicate 2600 (0x61 :: jschar)) = 2600" by simp
  have w1: "trim (js_slice (replicate 2600 (0x61 :: jschar)) 0 1000) \<noteq> []"
    by (simp add: trim_slice_replicate letter_a_not_whitespace)
  have w2: "trim (js_slice (replicate 2600 (0x61 :: jschar)) 800 1800) \<noteq> []"
    by (simp add: trim_slice_replicate letter_a_not_whitespace)
  have w4: "trim (js_slice (replicate 2600 (0x61 :: jschar)) 2400 2600) \<noteq> []"
    by (simp add: trim_slice_replicate letter_a_not_whitespace)
  from FixedChunking_2600_ranges [OF l w1 w2 w4] l w1 w2 w4 show ?thesis
    by blast
qed

text \<open>
  The claim as the specification words it, three chunks, fails on a text of 2600 letters:
  the fourth window is not empty.
\<close>

theorem FixedChunking_2600_three_chunks_counterexample:
  "map_option (map chunk_range)
     (FixedChunking_chunk (replicate 2600 0x61)
        \<lparr>chunkSize = 1000, chunkOverlap = 200, strategy = js ''fixed''\<rparr>)
   \<noteq> Some [(0, 1000), (800, 1800), (1600, 2600)]"
proof -
  have "FixedChunking_chunk (replicate 2600 0x61)
          \<lparr>chunkSize = 1000, chunkOverlap = 200, strategy = js ''fixed''\<rparr>
        = Some [fixed_chunk (replicate 2600 0x61) 0 0 1000,
                fixed_chunk (replicate 2600 0x61) 1 800 1800,
                fixed_chunk (replicate 2600 0x61) 2 1600 2600,
                fixed_chunk (replicate 2600 0x61) 3 2400 2600]"
    by (rule FixedChunking_2600) (simp_all add: trim_slice_replicate letter_a_not_whitespace)
  then show ?thesis by simp
qed

text \<open>
  When the overlap is smaller than the size, the window start grows in every iteration,
  so the loop returns.
\<close>

lemma FixedChunking_loop_returns:
  assumes "chunkOverlap opts < chunkSize opts"
  shows "0 \<le> position \<Longrightarrow> \<exists>r. FixedChunking_loop t opts position i acc = Some r"
proof (induction "nat (int (length t) - position)" arbitrary: position i acc rule: less_induct)
  case less
  show ?case
  proof (cases "position < int (length t)")
    case False
    then show ?thesis by (subst FixedChunking_loop.simps) simp
  next
    case True
    let ?p = "position + (chunkSize opts - chunkOverlap opts)"
    have gt: "position < ?p" using assms by simp
    then have pos: "0 < ?p" using less.prems by simp
    have "nat (int (length t) - ?p) < nat (int (length t) - position)"
      using True gt by simp
    from less.hyps [OF this] pos
    have ih: "\<And>i acc. \<exists>r. FixedChunking_loop t opts ?p i acc = Some r" by simp
    show ?thesis
      apply (subst FixedChunking_loop.simps)
      using True pos ih by (simp add: Let_def)
  qed
qed

lemma FixedChunking_chunk_returns:
  "chunkOverlap opts < chunkSize opts \<Longrightarrow> \<exists>r. FixedChunking_chunk t opts = Some r"
  unfolding FixedChunking_chunk_def by (rule FixedChunking_loop_returns) simp_all

text \<open>
  When the overlap equals the size, a window start that is positive and inside the text
  never moves: the loop does not return.
\<close>

lemma FixedChunking_loop_stuck:
  assumes "FixedChunking_loop t opts position i acc = Some y"
  shows "\<not> (chunkSize opts = chunkOverlap opts \<and> 0 < position \<and> position < int (length t))"
proof (rule FixedChunking_loop.raw_induct
    [where P = "\<lambda>t opts position i acc y.
        \<not> (chunkSize opts = chunkOverlap opts \<and> 0 < position \<and> position < int (length t))",
     OF _ assms], goal_cases)
  case (1 f t opts position i acc y)
  show ?case
  proof
    assume a: "chunkSize opts = chunkOverlap opts \<and> 0 < position \<and> position < int (length t)"
    with 1(2) obtain i' acc' where "f t opts position i' acc' = Some y"
      by (auto simp: Let_def split: if_splits)
    from 1(1) [OF this] a show False by simp
  qed
qed

lemma FixedChunking_equal_overlap_diverges:
  "FixedChunking_chunk (replicate 250 0x61)
     \<lparr>chunkSize = 100, chunkOverlap = 100, strategy = js ''fixed''\<rparr> = None"
proof -
  let ?t = "replicate 250 (0x61 :: jschar)"
  let ?o = "\<lparr>chunkSize = 100, chunkOverlap = 100, strategy = js ''fixed''\<rparr>"
  have "FixedChunking_chunk ?t ?o = FixedChunking_loop ?t ?o 100 1 [fixed_chunk ?t 0 0 100]"
    unfolding FixedChunking_chunk_def
    apply (subst FixedChunking_loop.simps)
    apply (simp add: Let_def trim_slice_replicate letter_a_not_whitespace)
    done
  moreover have "FixedChunking_loop ?t ?o 100 1 [fixed_chunk ?t 0 0 100] = None"
    using FixedChunking_loop_stuck [of ?t ?o 100 1 "[fixed_chunk ?t 0 0 100]"]
    by (cases "FixedChunking_loop ?t ?o 100 1 [fixed_chunk ?t 0 0 100]") auto
  ultimately show ?thesis by simp
qed
section \<open>Configuration validation\<close>

text \<open>
  C2, as the code behaves: the check on size and overlap is made by
  \<open>validateConfig\<close>, which the server runs at start-up before anything else: for every
  configuration whose chunk size is at most its chunk overlap it fails with an error, and
  whenever the earlier checks pass (both directories named; a known provider, with an API
  key unless it is \<open>transformers\<close>; a known strategy; a chunk size of at least 100) the
  error is the one about the overlap. The chunker itself makes no check.
\<close>

theorem validateConfig_rejects_overlap:
  assumes "chunkSize (chunkingOptions config) \<le> chunkOverlap (chunkingOptions config)"
  shows "(\<exists>e. validateConfig config = Inl e)
       \<and> (storageDir config \<noteq> [] \<and> chromaDbDir config \<noteq> []
            \<and> provider (embeddingConfig config)
                \<in> set [js ''transformers'', js ''openai'', js ''cohere'']
            \<and> (provider (embeddingConfig config) = js ''transformers''
                \<or> (\<exists>key. apiKey (embeddingConfig config) = Some key \<and> key \<noteq> []))
            \<and> strategy (chunkingOptions config)
                \<in> set [js ''sentence'', js ''paragraph'', js ''fixed'']
            \<and> 100 \<le> chunkSize (chunkingOptions config)
          \<longrightarrow> validateConfig config
                = Inl (Error (js ''Chunk overlap must be less than chunk size'')))"
proof (intro conjI impI)
  show "\<exists>e. validateConfig config = Inl e"
    using assms by (simp add: validateConfig_def)
next
  assume earlier: "storageDir config \<noteq> [] \<and> chromaDbDir config \<noteq> []
            \<and> provider (embeddingConfig config)
                \<in> set [js ''transformers'', js ''openai'', js ''cohere'']
            \<and> (provider (embeddingConfig config) = js ''transformers''
                \<or> (\<exists>key. apiKey (embeddingConfig config) = Some key \<and> key \<noteq> []))
            \<and> strategy (chunkingOptions config)
                \<in> set [js ''sentence'', js ''paragraph'', js ''fixed'']
            \<and> 100 \<le> chunkSize (chunkingOptions config)"
  then have key: "\<not> (provider (embeddingConfig config) \<noteq> js ''transformers''
              \<and> (apiKey (embeddingConfig config) = None \<or> apiKey (embeddingConfig config) = Some []))"
    by auto
  from earlier have a: "storageDir config \<noteq> []" and b: "chromaDbDir config \<noteq> []"
    and c: "provider (embeddingConfig config)
                \<in> set [js ''transformers'', js ''openai'', js ''cohere'']"
    and d: "strategy (chunkingOptions config)
                \<in> set [js ''sentence'', js ''paragraph'', js ''fixed'']"
    and e: "\<not> chunkSize (chunkingOptions config) < 100"
    by simp_all
  show "validateConfig config = Inl (Error (js ''Chunk overlap must be less than chunk size''))"
    unfolding validateConfig_def using a b c d e key assms by (simp only: if_False if_True not_True_eq_False not_not simp_thms)
qed

theorem validateConfig_rejects_overlap_witness:
  "chunkSize (chunkingOptions equal_overlap_config)
     \<le> chunkOverlap (chunkingOptions equal_overlap_config)
   \<and> validateConfig equal_overlap_config
       = Inl (Error (js ''Chunk overlap must be less than chunk size''))"
proof -
  have h: "chunkSize (chunkingOptions equal_overlap_config)
             \<le> chunkOverlap (chunkingOptions equal_overlap_config)"
    by (simp add: equal_overlap_config_def)
  have "storageDir equal_overlap_config \<noteq> [] \<and> chromaDbDir equal_overlap_config \<noteq> []
        \<and> provider (embeddingConfig equal_overlap_config)
            \<in> set [js ''transformers'', js ''openai'', js ''cohere'']
        \<and> (provider (embeddingConfig equal_overlap_config) = js ''transformers''
            \<or> (\<exists>key. apiKey (embeddingConfig equal_overlap_config) = Some key \<and> key \<noteq> []))
        \<and> strategy (chunkingOptions equal_overlap_config)
            \<in> set [js ''sentence'', js ''paragraph'', js ''fixed'']
        \<and> 100 \<le> chunkSize (chunkingOptions equal_overlap_config)"
    by (simp add: equal_overlap_config_def js_def)
  with validateConfig_rejects_overlap [OF h] h show ?thesis
    by blast
qed

text \<open>
  The claim as the specification words it fails on the chunker: with size 100 and overlap
  200 the text \<open>abc\<close> is chunked into one chunk, and no error is raised.
\<close>

theorem FixedChunking_chunk_no_ConfigError_counterexample:
  "FixedChunking_chunk (js ''abc'') \<lparr>chunkSize = 100, chunkOverlap = 200, strategy = js ''fixed''\<rparr>
   = Some [fixed_chunk (js ''abc'') 0 0 3]"
  unfolding FixedChunking_chunk_def
  apply (subst FixedChunking_loop.simps)
  apply (simp add: Let_def js_def trim_eq_Nil_iff js_slice_def js_whitespace_def)
  apply (subst FixedChunking_loop.simps)
  apply (simp add: Let_def)
  done

section \<open>Similarity search\<close>

lemma js_slice_0: "js_slice xs 0 k = take (nat (if k < 0 then int (length xs) + k else k)) xs"
  by (auto simp: js_slice_def Let_def min_def max_def)

subsection \<open>Numbers and the sort\<close>

lemma sign_positive: "js_less (Finite 0) v \<longleftrightarrow> sign v = Some 1"
  by (cases v) auto

lemma is_finite_value: "is_finite v \<Longrightarrow> v = Finite (finite_value v)"
  by (cases v) (simp_all add: is_finite_def)

lemma js_less_finite:
  "is_finite a \<Longrightarrow> is_finite b \<Longrightarrow> js_less a b \<longleftrightarrow> finite_value a < finite_value b"
  by (cases a; cases b) (simp_all add: is_finite_def)

lemma sub_sign_self: "sub_sign v v = Some 0 \<longleftrightarrow> is_finite v"
  by (cases v) (simp_all add: is_finite_def)

lemma compare_scores_positive:
  assumes "ieee_sub ar" and "is_finite (sim_score a)" and "is_finite (sim_score b)"
  shows "js_less (Finite 0) (compare_scores ar a b)
         \<longleftrightarrow> finite_value (sim_score a) < finite_value (sim_score b)"
proof -
  obtain x y where x: "sim_score a = Finite x" and y: "sim_score b = Finite y"
    using assms(2,3) by (metis is_finite_value)
  have "sign (compare_scores ar a b) = sub_sign (Finite y) (Finite x)"
    using assms(1) by (simp add: compare_scores_def ieee_sub_def x y)
  then show ?thesis
    by (simp add: sign_positive x y)
qed

lemma compare_scores_sign:
  assumes "ieee_sub ar" and "is_finite (sim_score a)" and "is_finite (sim_score b)"
  shows "sign (compare_scores ar a b)
         = Some (if finite_value (sim_score b) < finite_value (sim_score a) then - 1
                 else if finite_value (sim_score b) = finite_value (sim_score a) then 0 else 1)"
proof -
  obtain x y where x: "sim_score a = Finite x" and y: "sim_score b = Finite y"
    using assms(2,3) by (metis is_finite_value)
  have "sign (compare_scores ar a b) = sub_sign (Finite y) (Finite x)"
    using assms(1) by (simp add: compare_scores_def ieee_sub_def x y)
  then show ?thesis
    by (simp add: x y)
qed

lemma insert_sorted_insort_key:
  assumes "ieee_sub ar" and "is_finite (sim_score x)"
    and "list_all (\<lambda>h. is_finite (sim_score h)) ys"
  shows "insert_sorted (compare_scores ar) x ys
         = insort_key (\<lambda>r. - finite_value (sim_score r)) x ys"
  using assms(3)
proof (induction ys)
  case Nil
  then show ?case by simp
next
  case (Cons y ys)
  then have y: "is_finite (sim_score y)" and ys: "list_all (\<lambda>h. is_finite (sim_score h)) ys"
    by simp_all
  show ?case
    using Cons.IH [OF ys] compare_scores_positive [OF assms(1,2) y] by auto
qed

lemma stable_sort_sort_key:
  assumes "ieee_sub ar" and "list_all (\<lambda>h. is_finite (sim_score h)) xs"
  shows "stable_sort (compare_scores ar) xs = sort_key (\<lambda>r. - finite_value (sim_score r)) xs"
  using assms(2)
proof (induction xs)
  case Nil
  then show ?case by (simp add: stable_sort_def)
next
  case (Cons x xs)
  then have x: "is_finite (sim_score x)" and xs: "list_all (\<lambda>h. is_finite (sim_score h)) xs"
    by simp_all
  have fin: "list_all (\<lambda>h. is_finite (sim_score h)) (sort_key (\<lambda>r. - finite_value (sim_score r)) xs)"
    using xs by (simp add: list_all_iff)
  have "stable_sort (compare_scores ar) (x # xs)
        = insert_sorted (compare_scores ar) x (stable_sort (compare_scores ar) xs)"
    by (simp add: stable_sort_def)
  also have "\<dots> = insert_sorted (compare_scores ar) x (sort_key (\<lambda>r. - finite_value (sim_score r)) xs)"
    using Cons.IH [OF xs] by simp
  also have "\<dots> = insort_key (\<lambda>r. - finite_value (sim_score r)) x
                    (sort_key (\<lambda>r. - finite_value (sim_score r)) xs)"
    using assms(1) x fin by (rule insert_sorted_insort_key)
  finally show ?case by (simp add: sort_key_def)
qed

lemma consistent_finite:
  assumes "ieee_sub ar" and "list_all (\<lambda>h. is_finite (sim_score h)) xs"
  shows "consistent_comparator (compare_scores ar) xs"
proof -
  have "consistent_at (compare_scores ar) a b c"
    if "a \<in> set xs" "b \<in> set xs" "c \<in> set xs" for a b c
  proof -
    from that assms(2) have f: "is_finite (sim_score a)" "is_finite (sim_score b)"
      "is_finite (sim_score c)"
      by (simp_all add: list_all_iff)
    show ?thesis
      unfolding consistent_at_def
      by (simp add: compare_scores_sign [OF assms(1)] compare_scores_positive [OF assms(1)] f)
  qed
  then show ?thesis
    by (simp add: consistent_comparator_def list_all_iff)
qed

lemma consistent_imp_finite:
  assumes "ieee_sub ar" and "consistent_comparator (compare_scores ar) xs"
  shows "list_all (\<lambda>h. is_finite (sim_score h)) xs"
proof -
  have "is_finite (sim_score a)" if "a \<in> set xs" for a
  proof -
    from that assms(2) have "consistent_at (compare_scores ar) a a a"
      by (simp add: consistent_comparator_def list_all_iff)
    then have "sign (compare_scores ar a a) = Some 0"
      by (simp add: consistent_at_def)
    then have "sub_sign (sim_score a) (sim_score a) = Some 0"
      using assms(1) by (simp add: compare_scores_def ieee_sub_def)
    then show ?thesis by (simp add: sub_sign_self)
  qed
  then show ?thesis by (simp add: list_all_iff)
qed

lemma array_sort_finite:
  assumes "ieee_sub ar" and "list_all (\<lambda>h. is_finite (sim_score h)) xs"
  shows "array_sort (compare_scores ar) xs = Some (sort_key (\<lambda>r. - finite_value (sim_score r)) xs)"
proof (cases "length xs \<le> 1")
  case True
  then have "xs = [] \<or> (\<exists>x. xs = [x])"
    by (cases xs) (auto simp: length_Suc_conv)
  then show ?thesis
    by (auto simp: array_sort_def)
next
  case False
  then show ?thesis
    using assms by (simp add: array_sort_def consistent_finite stable_sort_sort_key)
qed

lemma array_sort_returns:
  assumes "ieee_sub ar" and "list_all (\<lambda>h. is_finite (sim_score h)) xs"
  shows "\<exists>ys. array_sort (compare_scores ar) xs = Some ys"
  using array_sort_finite [OF assms] by simp

lemma mset_insert_sorted: "mset (insert_sorted cmp x ys) = add_mset x (mset ys)"
  by (induction ys) simp_all

lemma mset_stable_sort: "mset (stable_sort cmp xs) = mset xs"
  by (induction xs) (simp_all add: stable_sort_def mset_insert_sorted)

lemma array_sort_mset: "array_sort cmp xs = Some ys \<Longrightarrow> mset ys = mset xs"
  by (auto simp: array_sort_def mset_stable_sort split: if_splits)

lemma sorted_wrt_short: "length xs \<le> 1 \<Longrightarrow> sorted_wrt P xs"
  by (cases xs) (auto simp: length_Suc_conv)

lemma array_sort_sorted:
  assumes "ieee_sub ar" and "array_sort (compare_scores ar) xs = Some ys"
  shows "sorted_wrt (\<lambda>a b. \<not> js_less (sim_score a) (sim_score b)) ys"
proof (cases "length xs \<le> 1")
  case True
  with assms(2) have "ys = xs" by (simp add: array_sort_def)
  with True show ?thesis by (simp add: sorted_wrt_short)
next
  case False
  with assms(2) have c: "consistent_comparator (compare_scores ar) xs"
    by (simp add: array_sort_def split: if_splits)
  let ?f = "\<lambda>r. - finite_value (sim_score r)"
  have fin: "list_all (\<lambda>h. is_finite (sim_score h)) xs"
    using assms(1) c by (rule consistent_imp_finite)
  then have ys: "ys = sort_key ?f xs"
    using array_sort_finite [OF assms(1) fin] assms(2) by simp
  have fin': "\<forall>h \<in> set ys. is_finite (sim_score h)"
    using fin by (simp add: ys list_all_iff)
  have "sorted (map ?f ys)"
    unfolding ys by (rule sorted_sort_key)
  then have "sorted_wrt (\<lambda>a b. ?f a \<le> ?f b) ys"
    by (simp add: sorted_map)
  then show ?thesis
  proof (rule sorted_wrt_mono_rel [rotated])
    fix a b
    assume "a \<in> set ys" "b \<in> set ys" "?f a \<le> ?f b"
    with fin' show "\<not> js_less (sim_score a) (sim_score b)"
      by (simp add: js_less_finite)
  qed
qed


subsection \<open>Scoring and thresholds\<close>

lemma set_map_filter: "set (List.map_filter f xs) = {y. \<exists>x \<in> set xs. f x = Some y}"
  by (induction xs) (auto split: option.splits)

lemma below_threshold_drops:
  "below_threshold opts s = threshold_drops (similarityThreshold opts) s"
  by (simp add: below_threshold_def threshold_drops_def number_truthy_def split: option.splits)

lemma cosineSimilarity_length_mismatch:
  "length a \<noteq> length b \<Longrightarrow> cosineSimilarity ar a b = Finite 0"
  by (simp add: cosineSimilarity_def)

lemma score_entries_total:
  "list_all (\<lambda>kv. entry_embedding (snd kv) \<noteq> None) idx
   \<Longrightarrow> \<exists>sims. score_entries ar q opts idx = Inr sims"
proof (induction idx)
  case Nil
  then show ?case by simp
next
  case (Cons kv idx)
  then show ?case
    by (auto simp: score_entry_def Let_def split: sum.splits option.splits)
qed

lemma score_entries_survivors:
  "score_entries ar q opts idx = Inr sims \<Longrightarrow>
   sims = filter (\<lambda>h. \<not> threshold_drops (similarityThreshold opts) (sim_score h))
            (List.map_filter
               (\<lambda>kv. map_option
                  (\<lambda>e. \<lparr>sim_chunkId = fst kv, sim_score = cosineSimilarity ar q e,
                        sim_documentId = entry_documentId (snd kv),
                        sim_chunkIndex = chunkIndex (snd kv)\<rparr>)
                  (entry_embedding (snd kv)))
               idx)"
proof (induction idx arbitrary: sims)
  case Nil
  then show ?case by simp
next
  case (Cons kv idx)
  then show ?case
    by (auto simp: score_entry_def Let_def below_threshold_drops
        split: sum.splits option.splits if_splits)
qed

lemma score_entries_candidates:
  "score_entries ar q opts (vectorIndex st) = Inr sims \<Longrightarrow> sims = survivors ar q opts st"
  unfolding survivors_def candidates_def by (rule score_entries_survivors)

lemma candidates_member:
  assumes "(key, entry) \<in> set (vectorIndex st)" and "entry_embedding entry = Some e"
  shows "\<lparr>sim_chunkId = key, sim_score = cosineSimilarity ar q e,
           sim_documentId = entry_documentId entry, sim_chunkIndex = chunkIndex entry\<rparr>
         \<in> set (candidates ar q st)"
  using assms by (force simp: candidates_def set_map_filter)

lemma length_candidates: "length (candidates ar q st) \<le> length (vectorIndex st)"
  by (simp add: candidates_def map_filter_def)

lemma length_survivors: "length (survivors ar q opts st) \<le> length (vectorIndex st)"
  unfolding survivors_def using length_candidates [of ar q st] length_filter_le
  by (metis (no_types, lifting) order_trans)

subsection \<open>From hits to results\<close>

lemma hasMatchingTag_iff:
  "hasMatchingTag wanted d \<longleftrightarrow> list_ex (\<lambda>t. t \<in> set wanted) (tags (metadata d))"
  by (auto simp: hasMatchingTag_def list_ex_iff)

lemma build_result_result_of_hit:
  "build_result ar opts st h
   = (case result_of_hit ar opts st h of None \<Rightarrow> [] | Some r \<Rightarrow> [r])"
  by (auto simp: build_result_def result_of_hit_def passes_tag_filter_def hasMatchingTag_iff
      split: option.splits)

lemma build_results_map_filter:
  "concat (map (build_result ar opts st) hits) = List.map_filter (result_of_hit ar opts st) hits"
  by (induction hits) (simp_all add: build_result_result_of_hit split: option.splits)

lemma result_of_hit_score: "result_of_hit ar opts st h = Some r \<Longrightarrow> score r = sim_score h"
  by (auto simp: result_of_hit_def split: option.splits if_splits)

lemma map_filter_scores:
  "map score (List.map_filter (result_of_hit ar opts st) hits)
   = map sim_score (filter (\<lambda>h. result_of_hit ar opts st h \<noteq> None) hits)"
  by (induction hits) (auto simp: result_of_hit_score split: option.splits)



lemma results_sorted:
  assumes "sorted_wrt (\<lambda>a b. \<not> js_less (sim_score a) (sim_score b)) hits"
  shows "sorted_wrt (\<lambda>a b. \<not> js_less (score a) (score b))
           (List.map_filter (result_of_hit ar opts st) hits)"
proof -
  let ?keep = "\<lambda>h. result_of_hit ar opts st h \<noteq> None"
  have "sorted_wrt (\<lambda>a b. \<not> js_less (sim_score a) (sim_score b)) (filter ?keep hits)"
    using assms by (rule sorted_wrt_filter)
  then have "sorted_wrt (\<lambda>a b. \<not> js_less a b) (map sim_score (filter ?keep hits))"
    by (simp add: sorted_wrt_map)
  then have "sorted_wrt (\<lambda>a b. \<not> js_less a b)
               (map score (List.map_filter (result_of_hit ar opts st) hits))"
    by (simp only: map_filter_scores)
  then show ?thesis by (simp add: sorted_wrt_map)
qed


text \<open>What a search that returns has computed.\<close>

lemma searchSimilar_Inr:
  assumes "searchSimilar ar q opts st = Some (Inr results)"
  shows "\<exists>ranking. array_sort (compare_scores ar) (survivors ar q opts st) = Some ranking
           \<and> results = List.map_filter (result_of_hit ar opts st)
                         (js_slice ranking 0 (maxResults_of opts))"
proof -
  from assms obtain sims where s: "score_entries ar q opts (vectorIndex st) = Inr sims"
    by (auto simp: searchSimilar_def ranked_hits_def split: option.splits sum.splits)
  then have sims: "sims = survivors ar q opts st" by (rule score_entries_candidates)
  from assms s show ?thesis
    by (auto simp: searchSimilar_def ranked_hits_def topResults_def build_results_map_filter sims
        split: option.splits sum.splits)
qed

lemma searchSimilar_no_error:
  assumes "list_all (\<lambda>kv. entry_embedding (snd kv) \<noteq> None) (vectorIndex st)"
  shows "searchSimilar ar q opts st \<noteq> Some (Inl e)"
proof -
  from score_entries_total [OF assms] obtain sims where
    "score_entries ar q opts (vectorIndex st) = Inr sims" by blast
  then show ?thesis
    by (auto simp: searchSimilar_def ranked_hits_def split: option.splits sum.splits)
qed

lemma searchSimilar_returns:
  assumes "ieee_sub ar"
    and "list_all (\<lambda>kv. entry_embedding (snd kv) \<noteq> None) (vectorIndex st)"
    and "list_all (\<lambda>h. is_finite (sim_score h)) (candidates ar q st)"
  shows "\<exists>results. searchSimilar ar q opts st = Some (Inr results)"
proof -
  from score_entries_total [OF assms(2)] obtain sims where
    s: "score_entries ar q opts (vectorIndex st) = Inr sims" by blast
  then have sims: "sims = survivors ar q opts st" by (rule score_entries_candidates)
  have "list_all (\<lambda>h. is_finite (sim_score h)) sims"
    using assms(3) by (simp add: sims survivors_def list_all_iff)
  with assms(1) obtain ys where "array_sort (compare_scores ar) sims = Some ys"
    using array_sort_returns by blast
  with s show ?thesis
    by (simp add: searchSimilar_def ranked_hits_def topResults_def)
qed

lemma maxResults_of_effective: "maxResults_of opts = effective_limit (maxResults opts)"
  by (simp add: maxResults_of_def effective_limit_def split: option.splits)

subsection \<open>The examples\<close>

lemma ieee_sub_exact: "ieee_sub exact_arith"
  unfolding ieee_sub_def
proof (intro allI)
  fix x y
  show "sign (fsub exact_arith x y) = sub_sign x y"
    by (cases x; cases y) (simp_all add: exact_arith_def)
qed

lemma cos_same:
  "cosineSimilarity exact_arith [Finite 1, Finite 0] [Finite 1, Finite 0] = Finite 1"
  by (simp add: cosineSimilarity_def cosine_step_def exact_arith_def)

lemma cos_opposite:
  "cosineSimilarity exact_arith [Finite 1, Finite 0] [Finite (- 1), Finite 0] = Finite (- 1)"
  by (simp add: cosineSimilarity_def cosine_step_def exact_arith_def)

lemma cos_shorter:
  "cosineSimilarity exact_arith [Finite 1, Finite 0] [Finite 1] = Finite 0"
  by (simp add: cosineSimilarity_def)

lemma number_toString_0: "number_toString 0 = [48]"
  by (simp add: number_toString.simps)

lemma tie_files:
  "getDocument (js ''a'') tie_store = Some (one_chunk_document (js ''a'') [Finite 1, Finite 0] Map.empty)"
  "getDocument (js ''b'') tie_store = Some (one_chunk_document (js ''b'') [Finite 1, Finite 0] Map.empty)"
  by (simp_all add: tie_store_def storeDocument_def getDocument_def loadDocument_def saveDocument_def
        one_chunk_document_def js_def)



lemma mixed_index: "vectorIndex mixed_store =
  [(js ''c_chunk_0'', \<lparr>entry_embedding = Some [Finite (- 1), Finite 0], entry_documentId = js ''c'', chunkIndex = 0\<rparr>),
   (js ''a_chunk_0'', \<lparr>entry_embedding = Some [Finite 1], entry_documentId = js ''a'', chunkIndex = 0\<rparr>),
   (js ''b_chunk_0'', \<lparr>entry_embedding = Some [Finite 1, Finite 0], entry_documentId = js ''b'', chunkIndex = 0\<rparr>)]"
  by (simp add: mixed_store_def storeDocument_def one_chunk_document_def empty_store_def
        store_chunk_def chunkId_of_def number_toString_0 js_def)

lemma mixed_files:
  "getDocument (js ''a'') mixed_store = Some (one_chunk_document (js ''a'') [Finite 1] Map.empty)"
  "getDocument (js ''b'') mixed_store = Some (one_chunk_document (js ''b'') [Finite 1, Finite 0] Map.empty)"
  "getDocument (js ''c'') mixed_store = Some (one_chunk_document (js ''c'') [Finite (- 1), Finite 0] Map.empty)"
  by (simp_all add: mixed_store_def storeDocument_def getDocument_def loadDocument_def saveDocument_def
        one_chunk_document_def js_def)

text \<open>
  A search whose scores are all finite, under a subtraction with the signs of IEEE 754:
  the hits are the survivors sorted by the library's stable sort on the negated score.
\<close>

lemma searchSimilar_finite:
  assumes "ieee_sub ar"
    and "score_entries ar q opts (vectorIndex st) = Inr sims"
    and "list_all (\<lambda>h. is_finite (sim_score h)) sims"
  shows "searchSimilar ar q opts st
         = Some (Inr (List.map_filter (result_of_hit ar opts st)
                        (js_slice (sort_key (\<lambda>r. - finite_value (sim_score r)) sims) 0
                           (maxResults_of opts))))"
  by (simp add: searchSimilar_def ranked_hits_def topResults_def assms(2)
      array_sort_finite [OF assms(1,3)] build_results_map_filter)








lemma mixed_scored:
  "score_entries exact_arith [Finite 1, Finite 0] plain_options (vectorIndex mixed_store)
   = Inr [\<lparr>sim_chunkId = js ''c_chunk_0'', sim_score = Finite (- 1), sim_documentId = js ''c'', sim_chunkIndex = 0\<rparr>,
          \<lparr>sim_chunkId = js ''a_chunk_0'', sim_score = Finite 0, sim_documentId = js ''a'', sim_chunkIndex = 0\<rparr>,
          \<lparr>sim_chunkId = js ''b_chunk_0'', sim_score = Finite 1, sim_documentId = js ''b'', sim_chunkIndex = 0\<rparr>]"
  by (simp add: mixed_index score_entry_def cos_same cos_opposite cos_shorter below_threshold_def
      plain_options_def)

lemma mixed_results:
  assumes "filterTags opts = None"
  shows "result_of_hit exact_arith opts mixed_store
      \<lparr>sim_chunkId = js ''b_chunk_0'', sim_score = Finite 1, sim_documentId = js ''b'', sim_chunkIndex = 0\<rparr>
     = Some \<lparr>chunk = hd (chunks (one_chunk_document (js ''b'') [Finite 1, Finite 0] Map.empty)),
             document = one_chunk_document (js ''b'') [Finite 1, Finite 0] Map.empty,
             score = Finite 1, distance = Finite 0\<rparr>"
    "result_of_hit exact_arith opts mixed_store
      \<lparr>sim_chunkId = js ''a_chunk_0'', sim_score = Finite 0, sim_documentId = js ''a'', sim_chunkIndex = 0\<rparr>
     = Some \<lparr>chunk = hd (chunks (one_chunk_document (js ''a'') [Finite 1] Map.empty)),
             document = one_chunk_document (js ''a'') [Finite 1] Map.empty,
             score = Finite 0, distance = Finite 1\<rparr>"
    "result_of_hit exact_arith opts mixed_store
      \<lparr>sim_chunkId = js ''c_chunk_0'', sim_score = Finite (- 1), sim_documentId = js ''c'', sim_chunkIndex = 0\<rparr>
     = Some \<lparr>chunk = hd (chunks (one_chunk_document (js ''c'') [Finite (- 1), Finite 0] Map.empty)),
             document = one_chunk_document (js ''c'') [Finite (- 1), Finite 0] Map.empty,
             score = Finite (- 1), distance = Finite 2\<rparr>"
  using assms
  by (simp_all add: result_of_hit_def mixed_files passes_tag_filter_def one_chunk_document_def
      exact_arith_def)

lemma mixed_search:
  "searchSimilar exact_arith [Finite 1, Finite 0] plain_options mixed_store =
   Some (Inr [\<lparr>chunk = hd (chunks (one_chunk_document (js ''b'') [Finite 1, Finite 0] Map.empty)),
               document = one_chunk_document (js ''b'') [Finite 1, Finite 0] Map.empty,
               score = Finite 1, distance = Finite 0\<rparr>,
              \<lparr>chunk = hd (chunks (one_chunk_document (js ''a'') [Finite 1] Map.empty)),
               document = one_chunk_document (js ''a'') [Finite 1] Map.empty,
               score = Finite 0, distance = Finite 1\<rparr>,
              \<lparr>chunk = hd (chunks (one_chunk_document (js ''c'') [Finite (- 1), Finite 0] Map.empty)),
               document = one_chunk_document (js ''c'') [Finite (- 1), Finite 0] Map.empty,
               score = Finite (- 1), distance = Finite 2\<rparr>])"
proof -
  have k: "maxResults_of plain_options = 3" and f: "filterTags plain_options = None"
    by (simp_all add: plain_options_def maxResults_of_def)
  show ?thesis
    unfolding searchSimilar_finite [OF ieee_sub_exact mixed_scored, simplified is_finite_def, simplified]
    by (simp add: k js_slice_0 mixed_results [OF f])
qed

subsection \<open>Ranking\<close>





subsection \<open>Embeddings of another dimension\<close>

lemma mismatch_in_results:
  assumes run: "searchSimilar ar q opts st = Some (Inr results)"
    and entry: "(key, entry) \<in> set (vectorIndex st)" "entry_embedding entry = Some e"
    and len: "length e \<noteq> length q"
    and thr: "\<not> threshold_drops (similarityThreshold opts) (Finite 0)"
    and limit: "int (length (vectorIndex st)) \<le> effective_limit (maxResults opts)"
    and doc: "getDocument (entry_documentId entry) st = Some d" "passes_tag_filter opts d"
      "find (\<lambda>c. index c = chunkIndex entry) (chunks d) = Some c"
  shows "\<lparr>chunk = c, document = d, score = Finite 0, distance = fsub ar (Finite 1) (Finite 0)\<rparr>
         \<in> set results"
proof -
  let ?h = "\<lparr>sim_chunkId = key, sim_score = Finite 0,
             sim_documentId = entry_documentId entry, sim_chunkIndex = chunkIndex entry\<rparr>"
  from searchSimilar_Inr [OF run] obtain ranking where
    sort: "array_sort (compare_scores ar) (survivors ar q opts st) = Some ranking"
    and res: "results = List.map_filter (result_of_hit ar opts st)
                          (js_slice ranking 0 (maxResults_of opts))"
    by blast
  have perm: "mset ranking = mset (survivors ar q opts st)"
    using sort by (rule array_sort_mset)
  have zero: "cosineSimilarity ar q e = Finite 0"
    using len by (simp add: cosineSimilarity_length_mismatch)
  have "?h \<in> set (candidates ar q st)"
    using candidates_member [OF entry, of ar q] by (simp add: zero)
  then have "?h \<in> set (survivors ar q opts st)"
    using thr by (simp add: survivors_def)
  then have h: "?h \<in> set ranking"
    using perm by (metis mset_eq_setD)
  have "length ranking = length (survivors ar q opts st)"
    using perm by (rule mset_eq_length)
  then have "int (length ranking) \<le> effective_limit (maxResults opts)"
    using length_survivors [of ar q opts st] limit by simp
  then have "js_slice ranking 0 (maxResults_of opts) = ranking"
    by (simp add: js_slice_0 maxResults_of_effective)
  then have res': "results = List.map_filter (result_of_hit ar opts st) ranking"
    using res by simp
  have "result_of_hit ar opts st ?h
        = Some \<lparr>chunk = c, document = d, score = Finite 0,
                distance = fsub ar (Finite 1) (Finite 0)\<rparr>"
    using doc by (simp add: result_of_hit_def)
  with h show ?thesis
    unfolding res' set_map_filter by blast
qed

lemma searchSimilar_sorted:
  assumes "ieee_sub ar" and run: "searchSimilar ar q opts st = Some (Inr results)"
  shows "sorted_wrt (\<lambda>a b. \<not> js_less (score a) (score b)) results"
proof -
  from searchSimilar_Inr [OF run] obtain ranking where
    sort: "array_sort (compare_scores ar) (survivors ar q opts st) = Some ranking"
    and res: "results = List.map_filter (result_of_hit ar opts st)
                          (js_slice ranking 0 (maxResults_of opts))"
    by blast
  have "sorted_wrt (\<lambda>a b. \<not> js_less (sim_score a) (sim_score b)) ranking"
    using assms(1) sort by (rule array_sort_sorted)
  then have "sorted_wrt (\<lambda>a b. \<not> js_less (sim_score a) (sim_score b))
               (js_slice ranking 0 (maxResults_of opts))"
    unfolding js_slice_0 by (rule sorted_wrt_take)
  then show ?thesis
    unfolding res by (rule results_sorted)
qed

text \<open>
  C10, as the code behaves. \<open>cosineSimilarity\<close> is exactly 0 for vectors of different
  lengths, whatever the arithmetic. A search over an index whose entries all hold an
  embedding raises no error. An entry whose embedding has another dimension than the query
  is a candidate with the score 0, and it is not rejected: when a search returns results,
  no threshold drops the score 0, the limit is not below the size of the index, and the
  entry's document is stored, passes the tag filter and has the chunk, then the entry is
  among the results, with the score 0. For a subtraction with the signs of IEEE 754 the
  results are in descending order of score, which puts the entry after every result of
  positive score and before every result of negative score, not at the bottom; and the
  search returns results when every score is finite.
\<close>

theorem dimension_mismatch_scores_zero:
  "(\<forall>a b. length a \<noteq> length b \<longrightarrow> cosineSimilarity ar a b = Finite 0)
   \<and> (list_all (\<lambda>kv. entry_embedding (snd kv) \<noteq> None) (vectorIndex st) \<longrightarrow>
        (\<forall>err. searchSimilar ar q opts st \<noteq> Some (Inl err)))
   \<and> (\<forall>key entry e.
        (key, entry) \<in> set (vectorIndex st) \<and> entry_embedding entry = Some e
        \<and> length e \<noteq> length q \<longrightarrow>
        \<lparr>sim_chunkId = key, sim_score = Finite 0, sim_documentId = entry_documentId entry,
          sim_chunkIndex = chunkIndex entry\<rparr> \<in> set (candidates ar q st))
   \<and> (\<forall>results key entry e d c.
        searchSimilar ar q opts st = Some (Inr results)
        \<and> (key, entry) \<in> set (vectorIndex st) \<and> entry_embedding entry = Some e
        \<and> length e \<noteq> length q
        \<and> \<not> threshold_drops (similarityThreshold opts) (Finite 0)
        \<and> int (length (vectorIndex st)) \<le> effective_limit (maxResults opts)
        \<and> getDocument (entry_documentId entry) st = Some d \<and> passes_tag_filter opts d
        \<and> find (\<lambda>c. index c = chunkIndex entry) (chunks d) = Some c \<longrightarrow>
        \<lparr>chunk = c, document = d, score = Finite 0, distance = fsub ar (Finite 1) (Finite 0)\<rparr>
          \<in> set results)
   \<and> (ieee_sub ar \<longrightarrow>
        (\<forall>results. searchSimilar ar q opts st = Some (Inr results) \<longrightarrow>
           sorted_wrt (\<lambda>a b. \<not> js_less (score a) (score b)) results))
   \<and> (ieee_sub ar \<and> list_all (\<lambda>kv. entry_embedding (snd kv) \<noteq> None) (vectorIndex st)
        \<and> list_all (\<lambda>h. is_finite (sim_score h)) (candidates ar q st) \<longrightarrow>
        (\<exists>results. searchSimilar ar q opts st = Some (Inr results)))"
proof (intro conjI)
  show "\<forall>a b. length a \<noteq> length b \<longrightarrow> cosineSimilarity ar a b = Finite 0"
    by (simp add: cosineSimilarity_length_mismatch)
  show "list_all (\<lambda>kv. entry_embedding (snd kv) \<noteq> None) (vectorIndex st) \<longrightarrow>
        (\<forall>err. searchSimilar ar q opts st \<noteq> Some (Inl err))"
    using searchSimilar_no_error by blast
  show "\<forall>key entry e.
        (key, entry) \<in> set (vectorIndex st) \<and> entry_embedding entry = Some e
        \<and> length e \<noteq> length q \<longrightarrow>
        \<lparr>sim_chunkId = key, sim_score = Finite 0, sim_documentId = entry_documentId entry,
          sim_chunkIndex = chunkIndex entry\<rparr> \<in> set (candidates ar q st)"
  proof (intro allI impI)
    fix key entry e
    assume a: "(key, entry) \<in> set (vectorIndex st) \<and> entry_embedding entry = Some e
               \<and> length e \<noteq> length q"
    then have "cosineSimilarity ar q e = Finite 0"
      by (simp add: cosineSimilarity_length_mismatch)
    with a candidates_member [of key entry st e ar q]
    show "\<lparr>sim_chunkId = key, sim_score = Finite 0, sim_documentId = entry_documentId entry,
            sim_chunkIndex = chunkIndex entry\<rparr> \<in> set (candidates ar q st)"
      by simp
  qed
  show "\<forall>results key entry e d c.
        searchSimilar ar q opts st = Some (Inr results)
        \<and> (key, entry) \<in> set (vectorIndex st) \<and> entry_embedding entry = Some e
        \<and> length e \<noteq> length q
        \<and> \<not> threshold_drops (similarityThreshold opts) (Finite 0)
        \<and> int (length (vectorIndex st)) \<le> effective_limit (maxResults opts)
        \<and> getDocument (entry_documentId entry) st = Some d \<and> passes_tag_filter opts d
        \<and> find (\<lambda>c. index c = chunkIndex entry) (chunks d) = Some c \<longrightarrow>
        \<lparr>chunk = c, document = d, score = Finite 0, distance = fsub ar (Finite 1) (Finite 0)\<rparr>
          \<in> set results"
    using mismatch_in_results by blast
  show "ieee_sub ar \<longrightarrow>
        (\<forall>results. searchSimilar ar q opts st = Some (Inr results) \<longrightarrow>
           sorted_wrt (\<lambda>a b. \<not> js_less (score a) (score b)) results)"
    using searchSimilar_sorted by blast
  show "ieee_sub ar \<and> list_all (\<lambda>kv. entry_embedding (snd kv) \<noteq> None) (vectorIndex st)
        \<and> list_all (\<lambda>h. is_finite (sim_score h)) (candidates ar q st) \<longrightarrow>
        (\<exists>results. searchSimilar ar q opts st = Some (Inr results))"
    using searchSimilar_returns by blast
qed

lemma mixed_candidates:
  "candidates exact_arith [Finite 1, Finite 0] mixed_store
   = [\<lparr>sim_chunkId = js ''c_chunk_0'', sim_score = Finite (- 1), sim_documentId = js ''c'', sim_chunkIndex = 0\<rparr>,
      \<lparr>sim_chunkId = js ''a_chunk_0'', sim_score = Finite 0, sim_documentId = js ''a'', sim_chunkIndex = 0\<rparr>,
      \<lparr>sim_chunkId = js ''b_chunk_0'', sim_score = Finite 1, sim_documentId = js ''b'', sim_chunkIndex = 0\<rparr>]"
proof -
  have "survivors exact_arith [Finite 1, Finite 0] plain_options mixed_store
        = candidates exact_arith [Finite 1, Finite 0] mixed_store"
    by (simp add: survivors_def threshold_drops_def plain_options_def)
  with score_entries_candidates [OF mixed_scored] show ?thesis by simp
qed

theorem dimension_mismatch_scores_zero_witness:
  "length [Finite 1, Finite 0] \<noteq> length [Finite 1 :: jsnumber]
   \<and> cosineSimilarity exact_arith [Finite 1, Finite 0] [Finite 1] = Finite 0
   \<and> ieee_sub exact_arith
   \<and> list_all (\<lambda>kv. entry_embedding (snd kv) \<noteq> None) (vectorIndex mixed_store)
   \<and> list_all (\<lambda>h. is_finite (sim_score h)) (candidates exact_arith [Finite 1, Finite 0] mixed_store)
   \<and> (\<forall>err. searchSimilar exact_arith [Finite 1, Finite 0] plain_options mixed_store
               \<noteq> Some (Inl err))
   \<and> (js ''a_chunk_0'',
       \<lparr>entry_embedding = Some [Finite 1], entry_documentId = js ''a'', chunkIndex = 0\<rparr>)
     \<in> set (vectorIndex mixed_store)
   \<and> \<lparr>sim_chunkId = js ''a_chunk_0'', sim_score = Finite 0, sim_documentId = js ''a'',
       sim_chunkIndex = 0\<rparr> \<in> set (candidates exact_arith [Finite 1, Finite 0] mixed_store)
   \<and> int (length (vectorIndex mixed_store)) \<le> effective_limit (maxResults plain_options)
   \<and> (\<exists>results.
        searchSimilar exact_arith [Finite 1, Finite 0] plain_options mixed_store
          = Some (Inr results)
        \<and> \<lparr>chunk = hd (chunks (one_chunk_document (js ''a'') [Finite 1] Map.empty)),
            document = one_chunk_document (js ''a'') [Finite 1] Map.empty,
            score = Finite 0, distance = fsub exact_arith (Finite 1) (Finite 0)\<rparr> \<in> set results
        \<and> sorted_wrt (\<lambda>a b. \<not> js_less (score a) (score b)) results)"
proof -
  let ?q = "[Finite 1, Finite 0]"
  let ?entry = "\<lparr>entry_embedding = Some [Finite 1], entry_documentId = js ''a'', chunkIndex = 0\<rparr>"
  let ?d = "one_chunk_document (js ''a'') [Finite 1] Map.empty"
  note inst = dimension_mismatch_scores_zero [of exact_arith mixed_store ?q plain_options]
  have len: "length ?q \<noteq> length [Finite 1 :: jsnumber]" by simp
  from inst len have cos: "cosineSimilarity exact_arith ?q [Finite 1] = Finite 0"
    by blast
  have all: "list_all (\<lambda>kv. entry_embedding (snd kv) \<noteq> None) (vectorIndex mixed_store)"
    by (simp add: mixed_index)
  have fin: "list_all (\<lambda>h. is_finite (sim_score h)) (candidates exact_arith ?q mixed_store)"
    unfolding mixed_candidates by (simp add: is_finite_def)
  from inst all have noerr: "\<forall>err. searchSimilar exact_arith ?q plain_options mixed_store
                                   \<noteq> Some (Inl err)"
    by blast
  have mem: "(js ''a_chunk_0'', ?entry) \<in> set (vectorIndex mixed_store)"
    by (simp add: mixed_index)
  have emb: "entry_embedding ?entry = Some [Finite 1]" and len': "length [Finite 1 :: jsnumber] \<noteq> length ?q"
    by simp_all
  from inst have "(js ''a_chunk_0'', ?entry) \<in> set (vectorIndex mixed_store)
        \<and> entry_embedding ?entry = Some [Finite 1]
        \<and> length [Finite 1 :: jsnumber] \<noteq> length ?q \<longrightarrow>
        \<lparr>sim_chunkId = js ''a_chunk_0'', sim_score = Finite 0,
          sim_documentId = entry_documentId ?entry, sim_chunkIndex = chunkIndex ?entry\<rparr>
          \<in> set (candidates exact_arith ?q mixed_store)"
    by blast
  with mem emb len'
  have cand: "\<lparr>sim_chunkId = js ''a_chunk_0'', sim_score = Finite 0, sim_documentId = js ''a'',
                sim_chunkIndex = 0\<rparr> \<in> set (candidates exact_arith ?q mixed_store)"
    by simp
  have thr: "\<not> threshold_drops (similarityThreshold plain_options) (Finite 0)"
    by (simp add: threshold_drops_def plain_options_def)
  have limit: "int (length (vectorIndex mixed_store)) \<le> effective_limit (maxResults plain_options)"
    by (simp add: mixed_index effective_limit_def plain_options_def)
  have doc: "getDocument (entry_documentId ?entry) mixed_store = Some ?d"
    by (simp add: mixed_files)
  have tag: "passes_tag_filter plain_options ?d"
    by (simp add: passes_tag_filter_def plain_options_def)
  have chunk: "find (\<lambda>c. index c = chunkIndex ?entry) (chunks ?d) = Some (hd (chunks ?d))"
    by (simp add: one_chunk_document_def)
  from inst ieee_sub_exact all fin obtain results where
    run: "searchSimilar exact_arith ?q plain_options mixed_store = Some (Inr results)"
    by blast
  from inst have "searchSimilar exact_arith ?q plain_options mixed_store = Some (Inr results)
        \<and> (js ''a_chunk_0'', ?entry) \<in> set (vectorIndex mixed_store)
        \<and> entry_embedding ?entry = Some [Finite 1]
        \<and> length [Finite 1 :: jsnumber] \<noteq> length ?q
        \<and> \<not> threshold_drops (similarityThreshold plain_options) (Finite 0)
        \<and> int (length (vectorIndex mixed_store)) \<le> effective_limit (maxResults plain_options)
        \<and> getDocument (entry_documentId ?entry) mixed_store = Some ?d
        \<and> passes_tag_filter plain_options ?d
        \<and> find (\<lambda>c. index c = chunkIndex ?entry) (chunks ?d) = Some (hd (chunks ?d)) \<longrightarrow>
        \<lparr>chunk = hd (chunks ?d), document = ?d, score = Finite 0,
          distance = fsub exact_arith (Finite 1) (Finite 0)\<rparr> \<in> set results"
    by blast
  with run mem emb len' thr limit doc tag chunk
  have present: "\<lparr>chunk = hd (chunks ?d), document = ?d, score = Finite 0,
          distance = fsub exact_arith (Finite 1) (Finite 0)\<rparr> \<in> set results"
    by (elim impE) (intro conjI)
  from inst ieee_sub_exact run
  have sorted: "sorted_wrt (\<lambda>a b. \<not> js_less (score a) (score b)) results"
    by blast
  have ex: "\<exists>results.
        searchSimilar exact_arith ?q plain_options mixed_store = Some (Inr results)
        \<and> \<lparr>chunk = hd (chunks ?d), document = ?d, score = Finite 0,
            distance = fsub exact_arith (Finite 1) (Finite 0)\<rparr> \<in> set results
        \<and> sorted_wrt (\<lambda>a b. \<not> js_less (score a) (score b)) results"
    using run present sorted by (intro exI [of _ results] conjI)
  from len cos ieee_sub_exact all fin noerr mem cand limit ex show ?thesis
    by (intro conjI)
qed

text \<open>
  The claim as the specification words it fails on the store holding \<open>c\<close>, \<open>a\<close> and
  \<open>b\<close>: the embedding of \<open>a\<close> has another dimension than the query, and \<open>a\<close> is
  returned with the score 0 in the second place, above \<open>c\<close> with the score -1; the
  bottom of the ranking is \<open>c\<close>.
\<close>

theorem dimension_mismatch_not_bottom_counterexample:
  "\<exists>results.
     searchSimilar exact_arith [Finite 1, Finite 0] plain_options mixed_store = Some (Inr results)
     \<and> map (\<lambda>r. (doc_id (document r), map_option length (embedding (chunk r)), score r)) results
         = [(js ''b'', Some 2, Finite 1), (js ''a'', Some 1, Finite 0),
            (js ''c'', Some 2, Finite (- 1))]
     \<and> doc_id (document (last results)) = js ''c''"
  unfolding mixed_search by (simp add: one_chunk_document_def)

subsection \<open>The metadata filter\<close>

lemma searchSimilar_ignores_filterMetadata:
  "searchSimilar ar q (opts\<lparr>filterMetadata := f\<rparr>) st = searchSimilar ar q opts st"
proof -
  have bt: "below_threshold (opts\<lparr>filterMetadata := f\<rparr>) s = below_threshold opts s" for s
    by (simp add: below_threshold_def)
  have se: "score_entry ar q (opts\<lparr>filterMetadata := f\<rparr>) kv = score_entry ar q opts kv" for kv
    by (simp add: score_entry_def bt Let_def split: option.splits)
  have ss: "score_entries ar q (opts\<lparr>filterMetadata := f\<rparr>) idx = score_entries ar q opts idx" for idx
    by (induction idx) (simp_all add: se split: sum.splits)
  have tr: "topResults ar (opts\<lparr>filterMetadata := f\<rparr>) = topResults ar opts"
    by (simp add: topResults_def maxResults_of_def fun_eq_iff)
  have br: "build_result ar (opts\<lparr>filterMetadata := f\<rparr>) = build_result ar opts"
    by (simp add: build_result_def fun_eq_iff split: option.splits)
  show ?thesis
    unfolding searchSimilar_def ranked_hits_def ss tr br by (rule refl)
qed

lemma year_index: "vectorIndex year_store =
  [(js ''b_chunk_0'', \<lparr>entry_embedding = Some [Finite 1, Finite 0], entry_documentId = js ''b'', chunkIndex = 0\<rparr>)]"
  by (simp add: year_store_def storeDocument_def one_chunk_document_def empty_store_def
        store_chunk_def chunkId_of_def number_toString_0 js_def)

lemma year_file:
  "getDocument (js ''b'') year_store = Some (one_chunk_document (js ''b'') [Finite 1, Finite 0] [js ''year'' \<mapsto> JNum 2024])"
  by (simp add: year_store_def storeDocument_def getDocument_def loadDocument_def saveDocument_def
        one_chunk_document_def)

lemma year_search:
  "searchSimilar ar [Finite 1, Finite 0] (searchOptions_of year_args) year_store =
   Some (Inr [\<lparr>chunk = hd (chunks (one_chunk_document (js ''b'') [Finite 1, Finite 0]
                                     [js ''year'' \<mapsto> JNum 2024])),
               document = one_chunk_document (js ''b'') [Finite 1, Finite 0]
                            [js ''year'' \<mapsto> JNum 2024],
               score = cosineSimilarity ar [Finite 1, Finite 0] [Finite 1, Finite 0],
               distance = fsub ar (Finite 1)
                            (cosineSimilarity ar [Finite 1, Finite 0] [Finite 1, Finite 0])\<rparr>])"
  apply (simp add: searchSimilar_def ranked_hits_def year_index score_entry_def
       below_threshold_def number_truthy_def searchOptions_of_def year_args_def topResults_def
       array_sort_def maxResults_of_def js_slice_def build_result_def year_file)
  apply (simp add: one_chunk_document_def)
  done

text \<open>
  C5 at a failing input, whatever the arithmetic: the stored document has
  \<open>year = 2024\<close>, the search asks for \<open>year = 1999\<close>, and the hit is returned all the
  same, since the file-based \<open>searchSimilar\<close> never reads \<open>filterMetadata\<close>.
\<close>

theorem searchKnowledge_returns_hit_failing_filterMetadata:
  "map_option (map_sum id (map year_of))
     (searchKnowledge ar small_json unit_embedder year_args year_store)
     = Some (Inr [Some (JNum 2024)])
   \<and> filter_metadata year_args = Some [js ''year'' \<mapsto> JNum 1999]"
proof -
  have q: "validateSearchQuery (arg_query year_args) = Inr ()"
    by (simp add: validateSearchQuery_def year_args_def js_def trim_eq_Nil_iff js_whitespace_def)
  have m: "validateMetadata small_json [js ''year'' \<mapsto> JNum 1999] = Inr ()"
    by (simp add: validateMetadata_def small_json_def)
  have f: "filter_metadata year_args = Some [js ''year'' \<mapsto> JNum 1999]"
    by (simp add: year_args_def)
  show ?thesis
    by (simp add: searchKnowledge_def q f m unit_embedder_def year_search format_result_def
        year_of_def one_chunk_document_def map_add_def)
qed

section \<open>Deleting a document\<close>

lemma fold_delete_filter:
  "fold AList.delete ks xs = filter (\<lambda>p. fst p \<notin> set ks) xs"
proof (induction ks arbitrary: xs)
  case Nil
  then show ?case by simp
next
  case (Cons k ks)
  have "fold AList.delete (k # ks) xs = fold AList.delete ks (AList.delete k xs)"
    by simp
  also have "\<dots> = filter (\<lambda>p. fst p \<notin> set ks) (AList.delete k xs)"
    by (rule Cons.IH)
  also have "\<dots> = filter (\<lambda>p. fst p \<notin> set (k # ks)) xs"
    unfolding AList.delete_eq filter_filter by (rule filter_cong) auto
  finally show ?case .
qed

lemma ChromaStorage_deleteDocument_index:
  "vectorIndex (ChromaStorage_deleteDocument i st)
   = filter (\<lambda>kv. fst kv \<notin> fst ` {kv \<in> set (vectorIndex st). entry_documentId (snd kv) = i}) (vectorIndex st)"
  by (simp add: ChromaStorage_deleteDocument_def Let_def fold_delete_filter)

lemma deleted_index_free:
  "kv \<in> set (vectorIndex (ChromaStorage_deleteDocument i st)) \<Longrightarrow> entry_documentId (snd kv) \<noteq> i"
  by (auto simp: ChromaStorage_deleteDocument_index)

lemma deleted_file_gone: "getDocument i (ChromaStorage_deleteDocument i st) = None"
  by (simp add: ChromaStorage_deleteDocument_def getDocument_def loadDocument_def Let_def
      FileSystemStorage_deleteDocument_def split: option.splits)

lemma ChromaStorage_deleteDocument_absent:
  assumes "getDocument i st = None"
    and "\<forall>kv \<in> set (vectorIndex st). entry_documentId (snd kv) \<noteq> i"
  shows "ChromaStorage_deleteDocument i st = st"
proof -
  have "filter (\<lambda>kv. entry_documentId (snd kv) = i) (vectorIndex st) = []"
    using assms(2) by (simp add: filter_empty_conv)
  with assms(1) show ?thesis
    by (simp add: ChromaStorage_deleteDocument_def getDocument_def loadDocument_def
        FileSystemStorage_deleteDocument_def)
qed

lemma ChromaStorage_deleteDocument_idem:
  "ChromaStorage_deleteDocument i (ChromaStorage_deleteDocument i st) = ChromaStorage_deleteDocument i st"
  by (rule ChromaStorage_deleteDocument_absent) (auto simp: deleted_file_gone dest: deleted_index_free)

lemma valid_id_a: "validateDocumentId (js ''a'') = Inr ()"
  by (simp add: validateDocumentId_def js_def id_char_def)

lemma valid_id_b: "validateDocumentId (js ''b'') = Inr ()"
  by (simp add: validateDocumentId_def js_def id_char_def)

lemma tie_file_a:
  "getDocument (js ''a'') tie_store = Some (one_chunk_document (js ''a'') [Finite 1, Finite 0] Map.empty)"
  by (rule tie_files)

lemma first_delete:
  "ManagementTool_deleteDocument (js ''a'') tie_store
   = (\<lparr>success = True, tool_message = js ''Document '' @ js ''a'' @ js '' deleted successfully''\<rparr>,
      ChromaStorage_deleteDocument (js ''a'') tie_store)"
  by (simp add: ManagementTool_deleteDocument_def valid_id_a tie_file_a)

text \<open>
  C6, as the code behaves: after a successful \<open>deleteDocument\<close>, a second call for the
  same id throws nothing and leaves the document files and the vector index unchanged, but
  it reports a failure: \<open>success\<close> is false and the message is
  \<open>Document not found: <id>\<close>. The delete of the storage layer itself is a no-op on the
  resulting store.
\<close>

theorem deleteDocument_twice:
  assumes "ManagementTool_deleteDocument i st = (r1, st1)" and "success r1"
  shows "ManagementTool_deleteDocument i st1
           = (\<lparr>success = False, tool_message = js ''Document not found: '' @ i\<rparr>, st1)
       \<and> ChromaStorage_deleteDocument i st1 = st1
       \<and> getDocument i st1 = None
       \<and> (\<forall>kv \<in> set (vectorIndex st1). entry_documentId (snd kv) \<noteq> i)"
proof -
  from assms have v: "validateDocumentId i = Inr ()"
    and st1: "st1 = ChromaStorage_deleteDocument i st"
    by (auto simp: ManagementTool_deleteDocument_def split: sum.splits option.splits)
  have g: "getDocument i st1 = None" unfolding st1 by (rule deleted_file_gone)
  have f: "\<forall>kv \<in> set (vectorIndex st1). entry_documentId (snd kv) \<noteq> i"
    unfolding st1 by (auto dest: deleted_index_free)
  have "ManagementTool_deleteDocument i st1
           = (\<lparr>success = False, tool_message = js ''Document not found: '' @ i\<rparr>, st1)"
    by (simp add: ManagementTool_deleteDocument_def v g)
  moreover have "ChromaStorage_deleteDocument i st1 = st1"
    unfolding st1 by (rule ChromaStorage_deleteDocument_idem)
  ultimately show ?thesis using g f by blast
qed


theorem deleteDocument_twice_witness:
  "success (fst (ManagementTool_deleteDocument (js ''a'') tie_store))
   \<and> ManagementTool_deleteDocument (js ''a'') (snd (ManagementTool_deleteDocument (js ''a'') tie_store))
       = (\<lparr>success = False, tool_message = js ''Document not found: '' @ js ''a''\<rparr>,
          snd (ManagementTool_deleteDocument (js ''a'') tie_store))"
  using deleteDocument_twice [OF first_delete] by (simp add: first_delete)

text \<open>
  The claim as the specification words it fails: the second call reports a failure.
\<close>

theorem deleteDocument_second_call_counterexample:
  "success (fst (ManagementTool_deleteDocument (js ''a'') tie_store))
   \<and> \<not> success (fst (ManagementTool_deleteDocument (js ''a'')
                        (snd (ManagementTool_deleteDocument (js ''a'') tie_store))))"
proof -
  have "ManagementTool_deleteDocument (js ''a'') (ChromaStorage_deleteDocument (js ''a'') tie_store)
        = (\<lparr>success = False, tool_message = js ''Document not found: '' @ js ''a''\<rparr>,
           ChromaStorage_deleteDocument (js ''a'') tie_store)"
    by (simp add: ManagementTool_deleteDocument_def valid_id_a deleted_file_gone)
  then show ?thesis by (simp add: first_delete)
qed

section \<open>Updating metadata and tags\<close>

lemma updateDocumentMetadata_run:
  assumes "validateDocumentId (upd_document_id args) = Inr ()"
    and "getDocument (upd_document_id args) st = Some d"
    and "\<forall>m. upd_metadata args = Some m \<longrightarrow> jsonSize m \<le> 100000"
    and "update_tags (upd_tags args) = Inr ts"
  shows "ManagementTool_updateDocumentMetadata jsonSize now args st
         = (\<lparr>success = True, tool_message = js ''Document metadata updated successfully''\<rparr>,
            st\<lparr>fileStorage := updateDocument now
                 (d\<lparr>metadata := merge_metadata (metadata d)
                                   (metadata_updates d (upd_metadata args) ts),
                    updatedAt := now\<rparr>) (fileStorage st)\<rparr>)"
proof -
  have vm: "(case upd_metadata args of None \<Rightarrow> Inr () | Some m \<Rightarrow> validateMetadata jsonSize m) = Inr ()"
    using assms(3) by (auto simp: validateMetadata_def split: option.splits)
  show ?thesis
    by (simp add: ManagementTool_updateDocumentMetadata_def assms(1,2,4) vm
        ChromaStorage_updateDocumentMetadata_def)
qed

lemma year_doc_id: "doc_id (one_chunk_document (js ''b'') [Finite 1, Finite 0] [js ''year'' \<mapsto> JNum 2024]) = js ''b''"
  by (simp add: one_chunk_document_def)

lemma those_json_strings: "those (map (json_string \<circ> JStr) supplied) = Some supplied"
  by (induction supplied) simp_all

lemma validateTags_strings:
  "validateTags (JArr (map JStr supplied))
   = (if length supplied > 100 then Inl (Error (js ''Invalid tags: cannot exceed 100 tags''))
      else Inr (trimmed_nonempty supplied))"
  by (simp add: those_json_strings trimmed_nonempty_def)

lemma update_tags_strings:
  assumes "upd_tags args = map_option (\<lambda>s. JArr (map JStr s)) supplied"
    and "\<forall>s. supplied = Some s \<longrightarrow> length s \<le> 100"
  shows "update_tags (upd_tags args) = Inr (map_option trimmed_nonempty supplied)"
  using assms
  by (cases supplied) (simp_all add: update_tags_def validateTags_strings del: validateTags.simps)

text \<open>
  C8: for an existing document, a valid id, a metadata object within the size bound and at
  most 100 tags, \<open>updateDocumentMetadata\<close> succeeds; the stored custom metadata is the
  old one overridden key by key with the supplied one (keys not mentioned are kept,
  supplied keys are added or overwritten); when tags are supplied the stored tags are the
  supplied ones, each trimmed and the empty ones left out, whatever tags the document had,
  and when none are supplied the tags are kept; content, chunks, vector index and all
  other documents stay as they were.
\<close>

theorem updateDocumentMetadata_merges:
  assumes "validateDocumentId (upd_document_id args) = Inr ()"
    and "getDocument (upd_document_id args) st = Some d"
    and "doc_id d = upd_document_id args"
    and "\<forall>m. upd_metadata args = Some m \<longrightarrow> jsonSize m \<le> 100000"
    and "upd_tags args = map_option (\<lambda>s. JArr (map JStr s)) supplied"
    and "\<forall>s. supplied = Some s \<longrightarrow> length s \<le> 100"
  shows "\<exists>st' d'.
           ManagementTool_updateDocumentMetadata jsonSize now args st
             = (\<lparr>success = True, tool_message = js ''Document metadata updated successfully''\<rparr>, st')
         \<and> getDocument (upd_document_id args) st' = Some d'
         \<and> customMetadata (metadata d')
             = (case upd_metadata args of None \<Rightarrow> customMetadata (metadata d)
                | Some m \<Rightarrow> customMetadata (metadata d) ++ m)
         \<and> (\<forall>m k. upd_metadata args = Some m \<longrightarrow>
                customMetadata (metadata d') k
                  = (case m k of None \<Rightarrow> customMetadata (metadata d) k | Some v \<Rightarrow> Some v))
         \<and> tags (metadata d')
             = (case supplied of None \<Rightarrow> tags (metadata d)
                | Some s \<Rightarrow> filter (\<lambda>t. t \<noteq> []) (map trim s))
         \<and> content d' = content d \<and> chunks d' = chunks d \<and> doc_id d' = doc_id d
         \<and> vectorIndex st' = vectorIndex st
         \<and> (\<forall>j. j \<noteq> upd_document_id args \<longrightarrow> getDocument j st' = getDocument j st)"
proof -
  let ?ts = "map_option trimmed_nonempty supplied"
  let ?u = "metadata_updates d (upd_metadata args) ?ts"
  let ?d' = "d\<lparr>metadata := merge_metadata (metadata d) ?u, updatedAt := now\<rparr>"
  let ?st' = "st\<lparr>fileStorage := updateDocument now ?d' (fileStorage st)\<rparr>"
  have ts: "update_tags (upd_tags args) = Inr ?ts"
    using assms(5,6) by (rule update_tags_strings)
  have run: "ManagementTool_updateDocumentMetadata jsonSize now args st
             = (\<lparr>success = True, tool_message = js ''Document metadata updated successfully''\<rparr>, ?st')"
    using assms(1,2,4) ts by (rule updateDocumentMetadata_run)
  have get: "getDocument (upd_document_id args) ?st' = Some ?d'"
    using assms(3) by (simp add: getDocument_def loadDocument_def updateDocument_def saveDocument_def)
  have cm: "customMetadata (metadata ?d')
             = (case upd_metadata args of None \<Rightarrow> customMetadata (metadata d)
                | Some m \<Rightarrow> customMetadata (metadata d) ++ m)"
    by (simp add: merge_metadata_def metadata_updates_def split: option.splits)
  have cmk: "\<forall>m k. upd_metadata args = Some m \<longrightarrow>
                customMetadata (metadata ?d') k
                  = (case m k of None \<Rightarrow> customMetadata (metadata d) k | Some v \<Rightarrow> Some v)"
    by (simp add: merge_metadata_def metadata_updates_def map_add_def)
  have tg: "tags (metadata ?d')
             = (case supplied of None \<Rightarrow> tags (metadata d)
                | Some s \<Rightarrow> filter (\<lambda>t. t \<noteq> []) (map trim s))"
    by (cases supplied) (simp_all add: merge_metadata_def metadata_updates_def trimmed_nonempty_def)
  have rest: "content ?d' = content d \<and> chunks ?d' = chunks d \<and> doc_id ?d' = doc_id d
              \<and> vectorIndex ?st' = vectorIndex st" by simp
  have others: "\<forall>j. j \<noteq> upd_document_id args \<longrightarrow> getDocument j ?st' = getDocument j st"
    using assms(3) by (simp add: getDocument_def loadDocument_def updateDocument_def saveDocument_def)
  from run get cm cmk tg rest others show ?thesis by blast
qed

lemma trim_examples:
  "trim (js ''ml '') = js ''ml''" "trim (js '' '') = []" "trim (js ''ai'') = js ''ai''"
  "trim (js '' ai '') = js ''ai''"
  by (simp_all add: trim_def js_def js_whitespace_def)

theorem updateDocumentMetadata_merges_witness:
  "\<exists>st' d'. ManagementTool_updateDocumentMetadata small_json 7 author_tags_update year_store
             = (\<lparr>success = True, tool_message = js ''Document metadata updated successfully''\<rparr>, st')
      \<and> getDocument (js ''b'') st' = Some d'
      \<and> customMetadata (metadata d') = [js ''year'' \<mapsto> JNum 2024, js ''author'' \<mapsto> JStr (js ''X'')]
      \<and> upd_tags author_tags_update = Some (JArr [JStr (js ''ml ''), JStr (js '' ''), JStr (js ''ai'')])
      \<and> tags (metadata d') = [js ''ml'', js ''ai'']"
proof -
  let ?d = "one_chunk_document (js ''b'') [Finite 1, Finite 0] [js ''year'' \<mapsto> JNum 2024]"
  have h1: "validateDocumentId (upd_document_id author_tags_update) = Inr ()"
    by (simp add: author_tags_update_def valid_id_b)
  have h2: "getDocument (upd_document_id author_tags_update) year_store = Some ?d"
    by (simp add: author_tags_update_def year_file)
  have h3: "doc_id ?d = upd_document_id author_tags_update"
    by (simp add: author_tags_update_def year_doc_id)
  have h4: "\<forall>m. upd_metadata author_tags_update = Some m \<longrightarrow> small_json m \<le> 100000"
    by (simp add: small_json_def)
  have h5: "upd_tags author_tags_update
            = map_option (\<lambda>s. JArr (map JStr s)) (Some [js ''ml '', js '' '', js ''ai''])"
    by (simp add: author_tags_update_def)
  have h6: "\<forall>s. Some [js ''ml '', js '' '', js ''ai''] = Some s \<longrightarrow> length s \<le> 100"
    by simp
  have ne: "js ''ml'' \<noteq> []" "js ''ai'' \<noteq> []"
    by (simp_all add: js_def)
  from updateDocumentMetadata_merges [OF h1 h2 h3 h4 h5 h6, of 7]
  obtain st' d' where
    "ManagementTool_updateDocumentMetadata small_json 7 author_tags_update year_store
       = (\<lparr>success = True, tool_message = js ''Document metadata updated successfully''\<rparr>, st')"
    "getDocument (upd_document_id author_tags_update) st' = Some d'"
    "customMetadata (metadata d')
       = (case upd_metadata author_tags_update of
            None \<Rightarrow> customMetadata (metadata ?d)
          | Some m \<Rightarrow> customMetadata (metadata ?d) ++ m)"
    "tags (metadata d')
       = (case Some [js ''ml '', js '' '', js ''ai''] of None \<Rightarrow> tags (metadata ?d)
          | Some s \<Rightarrow> filter (\<lambda>t. t \<noteq> []) (map trim s))"
    by blast
  then show ?thesis
    by (intro exI [of _ st'] exI [of _ d'])
       (simp add: author_tags_update_def one_chunk_document_def trim_examples ne)
qed

section \<open>The tags of stored documents\<close>

lemma dropWhile_id: "xs = [] \<or> \<not> P (hd xs) \<Longrightarrow> dropWhile P xs = xs"
  by (cases xs) auto

lemma last_dropWhile: "dropWhile P xs \<noteq> [] \<Longrightarrow> last (dropWhile P xs) = last xs"
  by (metis last_appendR takeWhile_dropWhile_id)

lemma trim_trim: "trim (trim s) = trim s"
proof -
  let ?P = js_whitespace
  let ?u = "dropWhile ?P s"
  let ?v = "dropWhile ?P (rev ?u)"
  have v: "?v = [] \<or> \<not> ?P (hd ?v)"
    using hd_dropWhile [of ?P "rev ?u"] by blast
  have "rev ?v = [] \<or> \<not> ?P (hd (rev ?v))"
  proof (cases "?v = []")
    case True
    then show ?thesis by simp
  next
    case False
    then have "last ?v = last (rev ?u)" by (rule last_dropWhile)
    moreover have u: "?u \<noteq> []"
    proof
      assume e: "?u = []"
      have "?v = []" unfolding e by simp
      with False show False by contradiction
    qed
    ultimately have "last ?v = hd ?u" by (simp add: last_rev)
    moreover from u have "\<not> ?P (hd ?u)" by (rule hd_dropWhile)
    ultimately show ?thesis using False by (simp add: hd_rev)
  qed
  then have "dropWhile ?P (rev ?v) = rev ?v" by (rule dropWhile_id)
  moreover have "dropWhile ?P ?v = ?v" using v by (rule dropWhile_id)
  ultimately show ?thesis by (simp add: trim_def)
qed

lemma validateTags_clean: "validateTags v = Inr ts \<Longrightarrow> list_all clean_tag ts"
  by (cases v) (auto simp: list_all_iff clean_tag_def trim_trim split: option.splits if_splits)

lemma ingest_tags_clean: "ingest_tags t = Inr ts \<Longrightarrow> list_all clean_tag ts"
  by (auto simp: ingest_tags_def dest: validateTags_clean split: option.splits if_splits)

lemma update_tags_clean: "update_tags t = Inr (Some ts) \<Longrightarrow> list_all clean_tag ts"
  by (auto simp: update_tags_def dest: validateTags_clean split: option.splits if_splits sum.splits)

lemma prepare_document_tags:
  "prepare_document env config now args = Some (Inr d) \<Longrightarrow>
   ingest_tags (ing_tags args) = Inr (tags (metadata d))"
  by (auto simp: prepare_document_def assemble_def Let_def split: sum.splits option.splits)

lemma prepare_document_id:
  "prepare_document env config now args = Some (Inr d) \<Longrightarrow>
   \<exists>src. acquire env config args = Inr src \<and> doc_id d = generateDocumentId env (src_filename src) now"
  by (auto simp: prepare_document_def assemble_def Let_def split: sum.splits option.splits)

lemma storeDocument_files:
  "fileStorage (storeDocument d st) = (fileStorage st)(doc_id d \<mapsto> d)"
  by (simp add: storeDocument_def saveDocument_def)

lemma storeDocument_tags_clean:
  "tags_clean st \<Longrightarrow> list_all clean_tag (tags (metadata d)) \<Longrightarrow> tags_clean (storeDocument d st)"
  by (auto simp: tags_clean_def storeDocument_files)

lemma ingestDocument_tags_clean:
  assumes "tags_clean st" and "ingestDocument env config now args st = Some (r, st')"
  shows "tags_clean st'"
proof (cases "prepare_document env config now args")
  case None
  with assms(2) show ?thesis by (simp add: ingestDocument_def)
next
  case (Some x)
  show ?thesis
  proof (cases x)
    case (Inl e)
    with Some assms show ?thesis by (simp add: ingestDocument_def)
  next
    case (Inr d)
    with Some have "list_all clean_tag (tags (metadata d))"
      using prepare_document_tags ingest_tags_clean by blast
    with Some Inr assms show ?thesis
      by (auto simp: ingestDocument_def intro: storeDocument_tags_clean)
  qed
qed

lemma ingestDocument_stored_tags:
  assumes "ingestDocument env config now args st = Some (r, st')" and "status r = js ''success''"
  shows "\<exists>ts. ingest_tags (ing_tags args) = Inr ts \<and> stored_tags st' (ingest_documentId r) = Some ts"
proof -
  have ne: "js ''error'' \<noteq> js ''success''" by (simp add: js_def)
  from assms ne obtain d where d: "prepare_document env config now args = Some (Inr d)"
    and r: "r = ingest_success d" and st': "st' = storeDocument d st"
    by (auto simp: ingestDocument_def ingest_error_def split: option.splits sum.splits)
  have "stored_tags st' (ingest_documentId r) = Some (tags (metadata d))"
    by (simp add: stored_tags_def getDocument_def loadDocument_def r st' ingest_success_def
        storeDocument_files)
  with prepare_document_tags [OF d] show ?thesis by simp
qed

lemma deleteDocument_tags_clean:
  "tags_clean st \<Longrightarrow> tags_clean (snd (ManagementTool_deleteDocument i st))"
  by (auto simp: tags_clean_def ManagementTool_deleteDocument_def ChromaStorage_deleteDocument_def
      FileSystemStorage_deleteDocument_def Let_def split: sum.splits option.splits if_splits)

lemma updateDocumentMetadata_tags_clean:
  assumes "tags_clean st"
  shows "tags_clean (snd (ManagementTool_updateDocumentMetadata jsonSize now args st))"
proof -
  { fix d ts
    assume d: "getDocument (upd_document_id args) st = Some d"
      and ts: "update_tags (upd_tags args) = Inr ts"
    have old: "list_all clean_tag (tags (metadata d))"
      using assms d by (auto simp: tags_clean_def getDocument_def loadDocument_def)
    have new: "list_all clean_tag (tags (merge_metadata (metadata d) (metadata_updates d (upd_metadata args) ts)))"
      using old update_tags_clean ts
      by (cases ts) (auto simp: merge_metadata_def metadata_updates_def)
    have "tags_clean (st\<lparr>fileStorage := updateDocument now
              (d\<lparr>metadata := merge_metadata (metadata d) (metadata_updates d (upd_metadata args) ts),
                 updatedAt := now\<rparr>) (fileStorage st)\<rparr>)"
      using assms new by (auto simp: tags_clean_def updateDocument_def saveDocument_def)
  }
  then show ?thesis using assms
    by (auto simp: ManagementTool_updateDocumentMetadata_def failure_def
        ChromaStorage_updateDocumentMetadata_def split: sum.splits option.splits)
qed

lemma batchIngest_loop_tags_clean:
  "tags_clean st \<Longrightarrow> batchIngest_loop env config files acc st = Some (res, st') \<Longrightarrow> tags_clean st'"
proof (induction files arbitrary: acc st)
  case Nil
  then show ?case by simp
next
  case (Cons f files)
  then show ?case
    by (auto split: option.splits dest: ingestDocument_tags_clean)
qed


lemma year_store_tags_clean: "tags_clean year_store"
  by (simp add: tags_clean_def year_store_def storeDocument_files empty_store_def
      one_chunk_document_def)

lemma duplicate_tags_run:
  "stored_tags (snd (ManagementTool_updateDocumentMetadata small_json 7 duplicate_tags_update year_store))
     (js ''b'') = Some [js ''ai'', js ''ai'']"
proof -
  have t: "trim (js '' ai '') = js ''ai''" "trim (js ''ai'') = js ''ai''"
    by (simp_all add: trim_def js_def js_whitespace_def)
  have u: "update_tags (upd_tags duplicate_tags_update) = Inr (Some [js ''ai'', js ''ai''])"
    by (simp add: duplicate_tags_update_def update_tags_def t) (simp add: js_def)
  have h1: "validateDocumentId (upd_document_id duplicate_tags_update) = Inr ()"
    by (simp add: duplicate_tags_update_def valid_id_b)
  have h2: "getDocument (upd_document_id duplicate_tags_update) year_store
            = Some (one_chunk_document (js ''b'') [Finite 1, Finite 0] [js ''year'' \<mapsto> JNum 2024])"
    by (simp add: duplicate_tags_update_def year_file)
  have h3: "\<forall>m. upd_metadata duplicate_tags_update = Some m \<longrightarrow> small_json m \<le> 100000"
    by (simp add: small_json_def)
  show ?thesis
    unfolding updateDocumentMetadata_run [OF h1 h2 h3 u]
    by (simp add: stored_tags_def getDocument_def loadDocument_def updateDocument_def
        saveDocument_def merge_metadata_def metadata_updates_def one_chunk_document_def)
qed

lemma validateTags_strings_result:
  "validateTags (JArr (map JStr supplied)) = Inr ts \<Longrightarrow> ts = trimmed_nonempty supplied"
  by (simp add: validateTags_strings del: validateTags.simps split: if_splits)

lemma ingestDocument_stores_supplied:
  assumes "ingestDocument env config now args st = Some (r, st')" and "status r = js ''success''"
    and "ing_tags args = Some (JArr (map JStr supplied))"
  shows "stored_tags st' (ingest_documentId r) = Some (trimmed_nonempty supplied)"
proof -
  from ingestDocument_stored_tags [OF assms(1,2)] obtain ts where
    ts: "ingest_tags (ing_tags args) = Inr ts" and st: "stored_tags st' (ingest_documentId r) = Some ts"
    by blast
  from ts assms(3) have "validateTags (JArr (map JStr supplied)) = Inr ts"
    by (simp add: ingest_tags_def)
  then have "ts = trimmed_nonempty supplied" by (rule validateTags_strings_result)
  with st show ?thesis by simp
qed

lemma updateDocumentMetadata_stores_supplied:
  assumes "success (fst (ManagementTool_updateDocumentMetadata jsonSize now args st))"
    and "getDocument (upd_document_id args) st = Some d"
    and "doc_id d = upd_document_id args"
    and "upd_tags args = Some (JArr (map JStr supplied))"
  shows "stored_tags (snd (ManagementTool_updateDocumentMetadata jsonSize now args st))
           (upd_document_id args) = Some (trimmed_nonempty supplied)"
proof -
  from assms(1) obtain ts where ts: "update_tags (upd_tags args) = Inr ts"
    and ok: "validateDocumentId (upd_document_id args) = Inr ()"
    and md: "(case upd_metadata args of None \<Rightarrow> Inr () | Some m \<Rightarrow> validateMetadata jsonSize m) = Inr ()"
    by (auto simp: ManagementTool_updateDocumentMetadata_def failure_def
        split: sum.splits option.splits)
  from ts assms(4) have "ts = Some (trimmed_nonempty supplied)"
    by (auto simp: update_tags_def validateTags_strings simp del: validateTags.simps
        split: if_splits sum.splits)
  then show ?thesis
    using assms(2,3) ok md ts
    by (simp add: ManagementTool_updateDocumentMetadata_def ChromaStorage_updateDocumentMetadata_def
        stored_tags_def getDocument_def loadDocument_def updateDocument_def saveDocument_def
        merge_metadata_def metadata_updates_def)
qed

lemma updateDocumentMetadata_keeps_tags:
  assumes "getDocument (upd_document_id args) st = Some d"
    and "doc_id d = upd_document_id args"
    and "upd_tags args = None"
  shows "stored_tags (snd (ManagementTool_updateDocumentMetadata jsonSize now args st))
           (upd_document_id args) = Some (tags (metadata d))"
  using assms
  by (simp add: ManagementTool_updateDocumentMetadata_def ChromaStorage_updateDocumentMetadata_def
      failure_def update_tags_def stored_tags_def getDocument_def loadDocument_def
      updateDocument_def saveDocument_def merge_metadata_def metadata_updates_def
      split: sum.splits option.splits)

lemma trimmed_nonempty_clean: "list_all clean_tag (trimmed_nonempty supplied)"
  by (auto simp: trimmed_nonempty_def list_all_iff clean_tag_def trim_trim)

text \<open>
  C9, as the code behaves. \<open>validateTags\<close> turns at most 100 supplied strings into the
  same strings, each trimmed, without the empty ones, in the order supplied and with every
  repetition kept; what it yields is trimmed and non-empty. A successful
  \<open>ingestDocument\<close> with tags supplied, and a successful \<open>updateDocumentMetadata\<close>
  with tags supplied, store exactly that list for the document, whatever the store held
  before; an update without tags leaves the document's tags as they were. Ingestion,
  batch ingestion, the metadata update and the delete all preserve the invariant that
  every stored document has trimmed, non-empty tags only.
\<close>

theorem stored_tags_trimmed_nonempty:
  "(\<forall>supplied. length supplied \<le> 100 \<longrightarrow>
       validateTags (JArr (map JStr supplied)) = Inr (filter (\<lambda>t. t \<noteq> []) (map trim supplied)))
   \<and> (\<forall>v ts. validateTags v = Inr ts \<longrightarrow> list_all clean_tag ts)
   \<and> (\<forall>r st'. ingestDocument env config now args st = Some (r, st') \<longrightarrow>
         (tags_clean st \<longrightarrow> tags_clean st')
         \<and> (status r = js ''success'' \<longrightarrow>
              (\<exists>ts. ingest_tags (ing_tags args) = Inr ts
                    \<and> stored_tags st' (ingest_documentId r) = Some ts))
         \<and> (\<forall>supplied. status r = js ''success''
                \<and> ing_tags args = Some (JArr (map JStr supplied)) \<longrightarrow>
              stored_tags st' (ingest_documentId r)
                = Some (filter (\<lambda>t. t \<noteq> []) (map trim supplied))))
   \<and> (\<forall>res st'. tags_clean st \<longrightarrow> batchIngest_loop env config files acc st = Some (res, st')
         \<longrightarrow> tags_clean st')
   \<and> (\<forall>supplied d.
         success (fst (ManagementTool_updateDocumentMetadata jsonSize now' uargs st))
         \<and> getDocument (upd_document_id uargs) st = Some d \<and> doc_id d = upd_document_id uargs
         \<and> upd_tags uargs = Some (JArr (map JStr supplied)) \<longrightarrow>
           stored_tags (snd (ManagementTool_updateDocumentMetadata jsonSize now' uargs st))
             (upd_document_id uargs)
           = Some (filter (\<lambda>t. t \<noteq> []) (map trim supplied))
           \<and> list_all clean_tag (filter (\<lambda>t. t \<noteq> []) (map trim supplied)))
   \<and> (\<forall>d. getDocument (upd_document_id uargs) st = Some d \<and> doc_id d = upd_document_id uargs
           \<and> upd_tags uargs = None \<longrightarrow>
           stored_tags (snd (ManagementTool_updateDocumentMetadata jsonSize now' uargs st))
             (upd_document_id uargs)
           = Some (tags (metadata d)))
   \<and> (tags_clean st \<longrightarrow>
        tags_clean (snd (ManagementTool_updateDocumentMetadata jsonSize now' uargs st)))
   \<and> (tags_clean st \<longrightarrow> tags_clean (snd (ManagementTool_deleteDocument i st)))"
proof -
  have tn: "filter (\<lambda>t. t \<noteq> []) (map trim supplied) = trimmed_nonempty supplied" for supplied
    by (simp add: trimmed_nonempty_def)
  have a0: "\<forall>supplied. length supplied \<le> 100 \<longrightarrow>
       validateTags (JArr (map JStr supplied)) = Inr (filter (\<lambda>t. t \<noteq> []) (map trim supplied))"
    unfolding tn by (simp add: validateTags_strings del: validateTags.simps)
  have a: "\<forall>v ts. validateTags v = Inr ts \<longrightarrow> list_all clean_tag ts"
    using validateTags_clean by blast
  have b: "\<forall>r st'. ingestDocument env config now args st = Some (r, st') \<longrightarrow>
         (tags_clean st \<longrightarrow> tags_clean st')
         \<and> (status r = js ''success'' \<longrightarrow>
              (\<exists>ts. ingest_tags (ing_tags args) = Inr ts
                    \<and> stored_tags st' (ingest_documentId r) = Some ts))
         \<and> (\<forall>supplied. status r = js ''success''
                \<and> ing_tags args = Some (JArr (map JStr supplied)) \<longrightarrow>
              stored_tags st' (ingest_documentId r)
                = Some (filter (\<lambda>t. t \<noteq> []) (map trim supplied)))"
  proof (intro allI impI conjI)
    fix r st'
    assume run: "ingestDocument env config now args st = Some (r, st')"
    { assume "tags_clean st"
      then show "tags_clean st'" using run by (rule ingestDocument_tags_clean) }
    { assume "status r = js ''success''"
      with run show "\<exists>ts. ingest_tags (ing_tags args) = Inr ts
                          \<and> stored_tags st' (ingest_documentId r) = Some ts"
        by (rule ingestDocument_stored_tags) }
    { fix supplied
      assume "status r = js ''success'' \<and> ing_tags args = Some (JArr (map JStr supplied))"
      then have s: "status r = js ''success''"
        and t: "ing_tags args = Some (JArr (map JStr supplied))" by simp_all
      show "stored_tags st' (ingest_documentId r)
                = Some (filter (\<lambda>t. t \<noteq> []) (map trim supplied))"
        unfolding tn using run s t by (rule ingestDocument_stores_supplied) }
  qed
  have c: "\<forall>res st'. tags_clean st \<longrightarrow> batchIngest_loop env config files acc st = Some (res, st')
         \<longrightarrow> tags_clean st'"
    using batchIngest_loop_tags_clean by blast
  have d0: "\<forall>supplied d.
         success (fst (ManagementTool_updateDocumentMetadata jsonSize now' uargs st))
         \<and> getDocument (upd_document_id uargs) st = Some d \<and> doc_id d = upd_document_id uargs
         \<and> upd_tags uargs = Some (JArr (map JStr supplied)) \<longrightarrow>
           stored_tags (snd (ManagementTool_updateDocumentMetadata jsonSize now' uargs st))
             (upd_document_id uargs)
           = Some (filter (\<lambda>t. t \<noteq> []) (map trim supplied))
           \<and> list_all clean_tag (filter (\<lambda>t. t \<noteq> []) (map trim supplied))"
    unfolding tn using updateDocumentMetadata_stores_supplied trimmed_nonempty_clean by blast
  have d1: "\<forall>d. getDocument (upd_document_id uargs) st = Some d \<and> doc_id d = upd_document_id uargs
           \<and> upd_tags uargs = None \<longrightarrow>
           stored_tags (snd (ManagementTool_updateDocumentMetadata jsonSize now' uargs st))
             (upd_document_id uargs)
           = Some (tags (metadata d))"
    using updateDocumentMetadata_keeps_tags by blast
  have d: "tags_clean st \<longrightarrow>
        tags_clean (snd (ManagementTool_updateDocumentMetadata jsonSize now' uargs st))"
    using updateDocumentMetadata_tags_clean by blast
  have e: "tags_clean st \<longrightarrow> tags_clean (snd (ManagementTool_deleteDocument i st))"
    using deleteDocument_tags_clean by blast
  from a0 a b c d0 d1 d e show ?thesis by (intro conjI)
qed

text \<open>
  The claim as the specification words it fails: an update with the tags \<open>ai\<close> and
  \<open> ai \<close> stores the tag \<open>ai\<close> twice.
\<close>

theorem stored_tags_duplicates_counterexample:
  "stored_tags (snd (ManagementTool_updateDocumentMetadata small_json 7 duplicate_tags_update year_store))
     (js ''b'') = Some [js ''ai'', js ''ai'']
   \<and> \<not> distinct [js ''ai'', js ''ai'']"
  by (simp add: duplicate_tags_run)


section \<open>Ingestion\<close>

lemma ingestDocument_cases:
  "ingestDocument env config now args st =
     (case prepare_document env config now args of
        None \<Rightarrow> None
      | Some (Inl e) \<Rightarrow> Some (ingest_error e, st)
      | Some (Inr d) \<Rightarrow> Some (ingest_success d, storeDocument d st))"
  by (simp add: ingestDocument_def)

lemma status_error_not_success: "js ''error'' \<noteq> js ''success''"
  by (simp add: js_def)









lemma failed_outcome [simp]:
  "failed (ingest_success d) = False" "failed (ingest_error e) = True"
  by (simp_all add: failed_def ingest_success_def ingest_error_def js_def)

lemma ingest_error_message [simp]: "ingest_message (ingest_error e) = error_message e"
  by (simp add: ingest_error_def)




lemma acquire_filename:
  "acquire env config args = Inr src \<Longrightarrow> src_filename src = ingest_filename env args"
  by (auto simp: acquire_def ingest_filename_def split: option.splits if_splits sum.splits)

lemma prepare_document_doc_id:
  assumes "prepare_document env config now args = Some (Inr d)"
  shows "doc_id d = generateDocumentId env (ingest_filename env args) now"
  using prepare_document_id [OF assms] acquire_filename by auto

lemma ingestDocument_success:
  assumes "ingestDocument env config now args st = Some (r, st')" and "status r = js ''success''"
  shows "\<exists>d. prepare_document env config now args = Some (Inr d) \<and> r = ingest_success d
             \<and> st' = storeDocument d st"
  using assms status_error_not_success
  by (auto simp: ingestDocument_def ingest_error_def split: option.splits sum.splits)

lemma getDocument_storeDocument:
  "getDocument j (storeDocument d st) = (if j = doc_id d then Some d else getDocument j st)"
  by (simp add: getDocument_def loadDocument_def storeDocument_files)

lemma getChunkingStrategy_fixed:
  assumes "toLowerCase env name = js ''fixed''"
  shows "getChunkingStrategy env name = Inr (\<lambda>t opts. map_option Inr (FixedChunking_chunk t opts))"
  using assms by (simp add: getChunkingStrategy_def js_def)

lemma prepare_document_succeeds:
  assumes "chunkOverlap (chunkingOptions config) < chunkSize (chunkingOptions config)"
    and "toLowerCase env (strategy (chunkingOptions config)) = js ''fixed''"
    and "acquire env config args = Inr src"
    and "ing_metadata args = None" and "ing_tags args = None"
    and "\<forall>ts. \<exists>es. generateEmbeddings env ts = Inr es"
  shows "\<exists>d. prepare_document env config now args = Some (Inr d)"
proof -
  from FixedChunking_chunk_returns [OF assms(1)] obtain cs where
    cs: "FixedChunking_chunk (src_content src) (chunkingOptions config) = Some cs" by blast
  from assms(6) obtain es where es: "generateEmbeddings env (map chunk_content cs) = Inr es" by blast
  show ?thesis
    by (simp add: prepare_document_def assms(3,4,5) ingest_metadata_def ingest_tags_def
        getChunkingStrategy_fixed [OF assms(2)] cs es Let_def)
qed


lemma scenario_valid:
  "chunkOverlap (chunkingOptions scenario_config) < chunkSize (chunkingOptions scenario_config)"
  by (simp add: scenario_config_def)

lemma scenario_fixed:
  "toLowerCase scenario_env (strategy (chunkingOptions scenario_config)) = js ''fixed''"
  by (simp add: scenario_env_def scenario_config_def)

lemma scenario_embeds: "\<forall>ts. \<exists>es. generateEmbeddings scenario_env ts = Inr es"
  by (simp add: scenario_env_def)

lemma scenario_text_acquire:
  "t \<noteq> [] \<Longrightarrow> acquire scenario_env scenario_config (text_args t)
     = Inr \<lparr>src_content = t, src_filename = js ''text_content'', src_fileType = js ''txt'',
            src_filePath = None\<rparr>"
  by (simp add: acquire_def text_args_def given_def)

lemma scenario_text_prepare:
  "t \<noteq> [] \<Longrightarrow> \<exists>d. prepare_document scenario_env scenario_config now (text_args t) = Some (Inr d)"
  by (rule prepare_document_succeeds [OF scenario_valid scenario_fixed scenario_text_acquire])
     (simp_all add: text_args_def scenario_embeds)

lemma success_status [simp]: "status (ingest_success d) = js ''success''"
  by (simp add: ingest_success_def)

text \<open>
  C4 at its failing inputs: two successful ingestions whose sources have the same file name
  and which read the same clock value get the same document id, since the id is a function
  of the sanitized file name and the timestamp alone; the second document then replaces
  the first, and the store differs from the store before both ingestions in that one id
  only.
\<close>

theorem same_instant_same_document_id:
  assumes "ingestDocument env config now args1 st = Some (r1, st1)" and "status r1 = js ''success''"
    and "ingestDocument env config now args2 st1 = Some (r2, st2)" and "status r2 = js ''success''"
    and "ingest_filename env args1 = ingest_filename env args2"
  shows "ingest_documentId r1 = ingest_documentId r2
       \<and> ingest_documentId r1 = generateDocumentId env (ingest_filename env args1) now
       \<and> (\<forall>j. j \<noteq> ingest_documentId r1 \<longrightarrow> getDocument j st2 = getDocument j st)
       \<and> (\<exists>d2. prepare_document env config now args2 = Some (Inr d2)
                \<and> getDocument (ingest_documentId r1) st2 = Some d2)"
proof -
  from ingestDocument_success [OF assms(1,2)] obtain d1 where
    d1: "prepare_document env config now args1 = Some (Inr d1)" "r1 = ingest_success d1"
        "st1 = storeDocument d1 st" by blast
  from ingestDocument_success [OF assms(3,4)] obtain d2 where
    d2: "prepare_document env config now args2 = Some (Inr d2)" "r2 = ingest_success d2"
        "st2 = storeDocument d2 st1" by blast
  have i1: "doc_id d1 = generateDocumentId env (ingest_filename env args1) now"
    using d1(1) by (rule prepare_document_doc_id)
  have i2: "doc_id d2 = generateDocumentId env (ingest_filename env args1) now"
    using prepare_document_doc_id [OF d2(1)] assms(5) by simp
  show ?thesis
    using i1 i2 d2(1)
    by (simp add: d1(2,3) d2(2,3) ingest_success_def getDocument_storeDocument)
qed

theorem same_instant_same_document_id_witness:
  "\<exists>r1 st1 r2 st2.
      ingestDocument scenario_env scenario_config 1700000000000 (text_args (js ''first'')) empty_store
        = Some (r1, st1)
    \<and> status r1 = js ''success''
    \<and> ingestDocument scenario_env scenario_config 1700000000000 (text_args (js ''second'')) st1
        = Some (r2, st2)
    \<and> status r2 = js ''success''
    \<and> ingest_filename scenario_env (text_args (js ''first''))
        = ingest_filename scenario_env (text_args (js ''second''))
    \<and> ingest_documentId r1 = ingest_documentId r2"
proof -
  have n1: "js ''first'' \<noteq> []" and n2: "js ''second'' \<noteq> []" by (simp_all add: js_def)
  from scenario_text_prepare [OF n1] obtain d1 where
    d1: "prepare_document scenario_env scenario_config 1700000000000 (text_args (js ''first''))
         = Some (Inr d1)" by blast
  from scenario_text_prepare [OF n2] obtain d2 where
    d2: "prepare_document scenario_env scenario_config 1700000000000 (text_args (js ''second''))
         = Some (Inr d2)" by blast
  let ?st1 = "storeDocument d1 empty_store"
  have r1: "ingestDocument scenario_env scenario_config 1700000000000 (text_args (js ''first''))
              empty_store = Some (ingest_success d1, ?st1)"
    by (simp add: ingestDocument_def d1)
  have r2: "ingestDocument scenario_env scenario_config 1700000000000 (text_args (js ''second''))
              ?st1 = Some (ingest_success d2, storeDocument d2 ?st1)"
    by (simp add: ingestDocument_def d2)
  have same: "ingest_filename scenario_env (text_args (js ''first''))
              = ingest_filename scenario_env (text_args (js ''second''))"
    by (simp add: ingest_filename_def text_args_def)
  from same_instant_same_document_id [OF r1 _ r2 _ same]
  have "ingest_documentId (ingest_success d1) = ingest_documentId (ingest_success d2)"
    by simp
  with r1 r2 same show ?thesis by (metis success_status)
qed

subsection \<open>Stored tags after an update and after an ingestion\<close>

lemma duplicate_tags_success:
  "success (fst (ManagementTool_updateDocumentMetadata small_json 7 duplicate_tags_update year_store))"
proof -
  have u: "update_tags (upd_tags duplicate_tags_update) = Inr (Some [js ''ai'', js ''ai''])"
    by (simp add: duplicate_tags_update_def update_tags_def trim_examples) (simp add: js_def)
  have h1: "validateDocumentId (upd_document_id duplicate_tags_update) = Inr ()"
    by (simp add: duplicate_tags_update_def valid_id_b)
  have h2: "getDocument (upd_document_id duplicate_tags_update) year_store
            = Some (one_chunk_document (js ''b'') [Finite 1, Finite 0] [js ''year'' \<mapsto> JNum 2024])"
    by (simp add: duplicate_tags_update_def year_file)
  have h3: "\<forall>m. upd_metadata duplicate_tags_update = Some m \<longrightarrow> small_json m \<le> 100000"
    by (simp add: small_json_def)
  show ?thesis
    unfolding updateDocumentMetadata_run [OF h1 h2 h3 u] by simp
qed

lemma scenario_tagged_prepare:
  "\<exists>d. prepare_document scenario_env scenario_config now tagged_text_args = Some (Inr d)"
proof -
  have acq: "acquire scenario_env scenario_config tagged_text_args
             = Inr \<lparr>src_content = js ''first'', src_filename = js ''text_content'',
                    src_fileType = js ''txt'', src_filePath = None\<rparr>"
    by (simp add: acquire_def tagged_text_args_def given_def) (simp add: js_def)
  have tg: "ingest_tags (ing_tags tagged_text_args) = Inr [js ''ai'', js ''ai'']"
    by (simp add: tagged_text_args_def ingest_tags_def trim_examples) (simp add: js_def)
  have md: "ing_metadata tagged_text_args = None"
    by (simp add: tagged_text_args_def)
  from FixedChunking_chunk_returns [OF scenario_valid] obtain cs where
    cs: "FixedChunking_chunk (js ''first'') (chunkingOptions scenario_config) = Some cs" by blast
  from scenario_embeds obtain es where
    es: "generateEmbeddings scenario_env (map chunk_content cs) = Inr es" by blast
  show ?thesis
    by (simp add: prepare_document_def acq md tg ingest_metadata_def
        getChunkingStrategy_fixed [OF scenario_fixed] cs es Let_def)
qed

theorem stored_tags_trimmed_nonempty_witness:
  "tags_clean year_store
   \<and> tags_clean (snd (ManagementTool_updateDocumentMetadata small_json 7 duplicate_tags_update year_store))
   \<and> length [js ''ai'', js '' ai ''] \<le> 100
   \<and> validateTags (JArr (map JStr [js ''ai'', js '' ai ''])) = Inr [js ''ai'', js ''ai'']
   \<and> success (fst (ManagementTool_updateDocumentMetadata small_json 7 duplicate_tags_update year_store))
   \<and> upd_tags duplicate_tags_update = Some (JArr (map JStr [js ''ai'', js '' ai '']))
   \<and> stored_tags (snd (ManagementTool_updateDocumentMetadata small_json 7 duplicate_tags_update year_store))
       (upd_document_id duplicate_tags_update)
     = Some [js ''ai'', js ''ai'']
   \<and> ing_tags tagged_text_args = Some (JArr (map JStr [js ''ai'', js '' ai '']))
   \<and> tags_clean empty_store
   \<and> (\<exists>r st'. ingestDocument scenario_env scenario_config 1700000000000 tagged_text_args empty_store
                  = Some (r, st')
          \<and> status r = js ''success''
          \<and> stored_tags st' (ingest_documentId r) = Some [js ''ai'', js ''ai'']
          \<and> tags_clean st')"
proof -
  let ?d = "one_chunk_document (js ''b'') [Finite 1, Finite 0] [js ''year'' \<mapsto> JNum 2024]"
  note inst = stored_tags_trimmed_nonempty
    [of _ _ _ _ year_store _ _ small_json 7 duplicate_tags_update]
  note ingest = stored_tags_trimmed_nonempty
    [of scenario_env scenario_config 1700000000000 tagged_text_args empty_store]
  have ne: "js ''ai'' \<noteq> []" by (simp add: js_def)
  have tr: "filter (\<lambda>t. t \<noteq> []) (map trim [js ''ai'', js '' ai '']) = [js ''ai'', js ''ai'']"
    by (simp add: trim_examples ne)
  have len: "length [js ''ai'', js '' ai ''] \<le> 100" by simp
  have ok: "success (fst (ManagementTool_updateDocumentMetadata small_json 7 duplicate_tags_update year_store))"
    by (rule duplicate_tags_success)
  have g: "getDocument (upd_document_id duplicate_tags_update) year_store = Some ?d"
    by (simp add: duplicate_tags_update_def year_file)
  have i: "doc_id ?d = upd_document_id duplicate_tags_update"
    by (simp add: duplicate_tags_update_def year_doc_id)
  have t: "upd_tags duplicate_tags_update = Some (JArr (map JStr [js ''ai'', js '' ai '']))"
    by (simp add: duplicate_tags_update_def)
  from inst have v: "validateTags (JArr (map JStr [js ''ai'', js '' ai '']))
                    = Inr (filter (\<lambda>t. t \<noteq> []) (map trim [js ''ai'', js '' ai '']))"
    using len by blast
  from inst have c: "tags_clean (snd (ManagementTool_updateDocumentMetadata small_json 7 duplicate_tags_update year_store))"
    using year_store_tags_clean by blast
  from inst ok g i t have s: "stored_tags (snd (ManagementTool_updateDocumentMetadata small_json 7 duplicate_tags_update year_store))
       (upd_document_id duplicate_tags_update)
     = Some (filter (\<lambda>t. t \<noteq> []) (map trim [js ''ai'', js '' ai '']))"
    by blast
  have tagged: "ing_tags tagged_text_args = Some (JArr (map JStr [js ''ai'', js '' ai '']))"
    by (simp add: tagged_text_args_def)
  have ec: "tags_clean empty_store"
    by (simp add: tags_clean_def empty_store_def)
  from scenario_tagged_prepare obtain d where
    d: "prepare_document scenario_env scenario_config 1700000000000 tagged_text_args = Some (Inr d)"
    by blast
  let ?st' = "storeDocument d empty_store"
  have run: "ingestDocument scenario_env scenario_config 1700000000000 tagged_text_args empty_store
             = Some (ingest_success d, ?st')"
    by (simp add: ingestDocument_def d)
  have st: "status (ingest_success d) = js ''success''" by simp
  from ingest run st tagged
  have stored: "stored_tags ?st' (ingest_documentId (ingest_success d))
            = Some (filter (\<lambda>t. t \<noteq> []) (map trim [js ''ai'', js '' ai '']))"
    by blast
  from ingest run ec have ic: "tags_clean ?st'"
    by blast
  have ex: "\<exists>r st'. ingestDocument scenario_env scenario_config 1700000000000 tagged_text_args empty_store
                  = Some (r, st')
          \<and> status r = js ''success''
          \<and> stored_tags st' (ingest_documentId r) = Some [js ''ai'', js ''ai'']
          \<and> tags_clean st'"
    using run st stored ic unfolding tr
    by (intro exI [of _ "ingest_success d"] exI [of _ ?st'] conjI)
  from year_store_tags_clean c len v ok t s tagged ec ex show ?thesis
    unfolding tr by (intro conjI)
qed

subsection \<open>Batch ingestion\<close>










end
